theory Spec2Isabelle
  imports Main "HOL-Library.Word" "HOL-Library.Sublist"
begin

section \<open>Go strings\<close>

text \<open>
  A Go string is a sequence of bytes, modelled as \<^typ>\<open>string\<close>. The translator only
  uses \<^verbatim>\<open>strings.Join\<close>, \<^verbatim>\<open>strings.TrimPrefix\<close>, \<^verbatim>\<open>strings.Contains\<close> and the
  \<^verbatim>\<open>fmt\<close> verbs \<^verbatim>\<open>%s\<close>, \<^verbatim>\<open>%v\<close> (on lengths) and \<^verbatim>\<open>%q\<close>.
\<close>

fun Join :: "string list \<Rightarrow> string \<Rightarrow> string" where
  "Join [] sep = []"
| "Join [x] sep = x"
| "Join (x # y # ys) sep = x @ sep @ Join (y # ys) sep"

definition TrimPrefix :: "string \<Rightarrow> string \<Rightarrow> string" where
  "TrimPrefix s p = (if prefix p s then drop (length p) s else s)"

fun Contains :: "string \<Rightarrow> string \<Rightarrow> bool" where
  "Contains [] substr = (substr = [])"
| "Contains (c # cs) substr = (prefix substr (c # cs) \<or> Contains cs substr)"

text \<open>The verb \<^verbatim>\<open>%v\<close> on a length: its decimal digits.\<close>

definition digit :: "nat \<Rightarrow> char" where
  "digit d = ''0123456789'' ! (d mod 10)"

fun show_nat :: "nat \<Rightarrow> string" where
  "show_nat n = (if n < 10 then [digit n] else show_nat (n div 10) @ [digit (n mod 10)])"

text \<open>
  The verb \<^verbatim>\<open>%q\<close> is \<^verbatim>\<open>strconv.Quote\<close>: the string between double quotes, the
  double quote and the backslash escaped with a backslash, the printable ASCII bytes
  as they are, the control bytes as \<^verbatim>\<open>\a \b \f \n \r \t \v\<close> or as \<^verbatim>\<open>\x\<close> and two
  lower-case hexadecimal digits. A byte from 0x80 on is rendered here as Go renders a byte
  that is no valid UTF-8 (\<^verbatim>\<open>\x\<close> and two digits); Go copies a printable multi-byte rune
  unchanged, which needs the Unicode tables. Kubernetes object names, namespaces and uids
  are ASCII, where the model is exact.
\<close>

definition lowerhex :: "nat \<Rightarrow> char" where
  "lowerhex d = ''0123456789abcdef'' ! (d mod 16)"

definition quote_byte :: "char \<Rightarrow> string" where
  "quote_byte c =
     (let n = (of_char c :: nat) in
      if c = CHR 0x22 then [CHR 0x5C, CHR 0x22]
      else if c = CHR 0x5C then [CHR 0x5C, CHR 0x5C]
      else if 0x20 \<le> n \<and> n < 0x7F then [c]
      else if n = 7 then [CHR 0x5C, CHR ''a'']
      else if n = 8 then [CHR 0x5C, CHR ''b'']
      else if n = 12 then [CHR 0x5C, CHR ''f'']
      else if n = 10 then [CHR 0x5C, CHR ''n'']
      else if n = 13 then [CHR 0x5C, CHR ''r'']
      else if n = 9 then [CHR 0x5C, CHR ''t'']
      else if n = 11 then [CHR 0x5C, CHR ''v'']
      else [CHR 0x5C, CHR ''x'', lowerhex (n div 16), lowerhex (n mod 16)])"

definition go_quote :: "string \<Rightarrow> string" where
  "go_quote s = [CHR 0x22] @ concat (map quote_byte s) @ [CHR 0x22]"

section \<open>Data model\<close>

text \<open>
  Of \<^verbatim>\<open>config.GceConfig\<close> the translator reads four strings. Of a pod or a node it
  reads the embedded \<^verbatim>\<open>ObjectMeta\<close> only (\<^verbatim>\<open>GetName\<close>, \<^verbatim>\<open>GetNamespace\<close>,
  \<^verbatim>\<open>GetUID\<close>).
\<close>

record GceConfig =
  Project :: string
  Cluster :: string
  Location :: string
  MetricsPrefix :: string

record ObjectMeta =
  Name :: string
  Namespace :: string
  UID :: string

type_synonym Pod = ObjectMeta
type_synonym Node = ObjectMeta

record PodList =
  PodItems :: "Pod list"

record NodeList =
  NodeItems :: "Node list"

record GroupResource =
  grGroup :: string
  grResource :: string

record GroupVersionResource =
  gvrGroup :: string
  gvrVersion :: string
  gvrResource :: string

record GroupVersionKind =
  gvkGroup :: string
  gvkVersion :: string
  gvkKind :: string

definition WithVersion :: "GroupResource \<Rightarrow> string \<Rightarrow> GroupVersionResource" where
  "WithVersion gr version = \<lparr>gvrGroup = grGroup gr, gvrVersion = version, gvrResource = grResource gr\<rparr>"

text \<open>
  Every way the code leaves a function other than by its result. \<open>Fatal\<close> is
  \<^verbatim>\<open>glog.Fatalf\<close>: the message is logged and the process exits, nothing is returned to
  the caller. \<open>MapperError\<close> is whatever error the injected \<^verbatim>\<open>RESTMapper\<close> returned.
\<close>

datatype error =
  is_BadRequest: BadRequest string
| is_InternalError: InternalError string
| is_OperationNotSupported: OperationNotSupported string
| is_MetricNotFound: MetricNotFound GroupResource string
| is_MapperError: MapperError string
| is_Fatal: Fatal string

text \<open>
  Times are nanoseconds since the epoch and durations nanoseconds, as in Go. The
  injected clock is a source of readings: \<open>clock t n\<close> is what its \<open>n\<close>-th call of
  \<^verbatim>\<open>Now\<close> returns, and the functions that read the clock take the number of readings made
  so far and return it updated.
\<close>

type_synonym Time = int
type_synonym Duration = int

record Translator =
  config :: GceConfig
  reqWindow :: Duration
  clock :: "nat \<Rightarrow> Time"
  mapper :: "GroupVersionResource \<Rightarrow> error + GroupVersionKind"
  useNewResourceModel :: bool

text \<open>
  The request that \<^verbatim>\<open>service.Projects.TimeSeries.List(project).Filter(filter)...\<close>
  describes. The two times and the alignment period are kept as values: the source renders
  them as RFC 3339 text and as whole seconds followed by \<^verbatim>\<open>s\<close>.
\<close>

record TimeSeriesListCall =
  ListName :: string
  Filter :: string
  IntervalStartTime :: Time
  IntervalEndTime :: Time
  AggregationPerSeriesAligner :: string
  AggregationAlignmentPeriod :: Duration

definition oneOfMax :: nat where
  "oneOfMax = 100"

section \<open>Filters\<close>

definition getPodNames :: "PodList \<Rightarrow> string list" where
  "getPodNames list = map (\<lambda>item. go_quote (Name item)) (PodItems list)"

definition getNodeNames :: "NodeList \<Rightarrow> string list" where
  "getNodeNames list = map (\<lambda>item. go_quote (Name item)) (NodeItems list)"

definition getResourceIDs :: "PodList \<Rightarrow> string list" where
  "getResourceIDs list = map (\<lambda>item. go_quote (UID item)) (PodItems list)"

definition joinFilters :: "string list \<Rightarrow> string" where
  "joinFilters filters = Join filters '' AND ''"

definition filterForCluster :: "Translator \<Rightarrow> string" where
  "filterForCluster t =
     (let projectFilter = ''resource.label.project_id = '' @ go_quote (Project (config t));
          clusterFilter = ''resource.label.cluster_name = '' @ go_quote (Cluster (config t));
          locationFilter = ''resource.label.location = '' @ go_quote (Location (config t))
      in projectFilter @ '' AND '' @ clusterFilter @ '' AND '' @ locationFilter)"

definition filterForMetricPrefix :: "Translator \<Rightarrow> string" where
  \<open>filterForMetricPrefix t =
     ''metric.type = starts_with("'' @ MetricsPrefix (config t) @ ''/")''\<close>

definition filterForMetric :: "Translator \<Rightarrow> string \<Rightarrow> string" where
  "filterForMetric t metricName = ''metric.type = '' @ go_quote metricName"

definition filterForAnyPod :: "Translator \<Rightarrow> string" where
  \<open>filterForAnyPod t = ''resource.type = "k8s_pod"''\<close>

definition filterForAnyNode :: "Translator \<Rightarrow> string" where
  \<open>filterForAnyNode t = ''resource.type = "k8s_node"''\<close>

definition filterForAnyResource :: "Translator \<Rightarrow> string" where
  \<open>filterForAnyResource t = ''resource.type = one_of("k8s_pod","k8s_node")''\<close>

text \<open>
  The three builders over a list of quoted literals. On the empty list the source calls
  \<^verbatim>\<open>glog.Fatalf\<close>, which does not return.
\<close>

fun filterForPods :: "Translator \<Rightarrow> string list \<Rightarrow> string \<Rightarrow> error + string" where
  "filterForPods t [] namespace =
     Inl (Fatal ''createFilterForPods called with empty list of pod names'')"
| "filterForPods t [podName] namespace =
     Inr (''resource.label.namespace_name = '' @ go_quote namespace
          @ '' AND resource.label.pod_name = '' @ podName)"
| "filterForPods t podNames namespace =
     Inr (''resource.label.namespace_name = '' @ go_quote namespace
          @ '' AND resource.label.pod_name = one_of('' @ Join podNames '','' @ '')'')"

fun filterForNodes :: "Translator \<Rightarrow> string list \<Rightarrow> error + string" where
  "filterForNodes t [] =
     Inl (Fatal ''createFilterForNodes called with empty list of node names'')"
| "filterForNodes t [nodeName] = Inr (''resource.label.node_name = '' @ nodeName)"
| "filterForNodes t nodeNames =
     Inr (''resource.label.node_name = one_of('' @ Join nodeNames '','' @ '')'')"

definition legacyFilterForCluster :: "Translator \<Rightarrow> string" where
  \<open>legacyFilterForCluster t =
     (let projectFilter = ''resource.label.project_id = '' @ go_quote (Project (config t));
          clusterFilter = ''resource.label.cluster_name = '' @ go_quote (Cluster (config t));
          containerFilter = ''resource.label.container_name = ""''
      in projectFilter @ '' AND '' @ clusterFilter @ '' AND '' @ containerFilter)\<close>

definition legacyFilterForAnyPod :: "Translator \<Rightarrow> string" where
  \<open>legacyFilterForAnyPod t =
     ''resource.label.pod_id != "" AND resource.label.pod_id != "machine"''\<close>

fun legacyFilterForPods :: "Translator \<Rightarrow> string list \<Rightarrow> error + string" where
  "legacyFilterForPods t [] =
     Inl (Fatal ''createFilterForIDs called with empty list of pod IDs'')"
| "legacyFilterForPods t [podID] = Inr (''resource.label.pod_id = '' @ podID)"
| "legacyFilterForPods t podIDs =
     Inr (''resource.label.pod_id = one_of('' @ Join podIDs '','' @ '')'')"

section \<open>Requests\<close>

definition createListTimeseriesRequest ::
  "Translator \<Rightarrow> string \<Rightarrow> nat \<Rightarrow> TimeSeriesListCall \<times> nat" where
  "createListTimeseriesRequest t filterText n =
     (let project = ''projects/'' @ Project (config t);
          endTime = clock t n;
          startTime = endTime - reqWindow t
      in (\<lparr>ListName = project, Filter = filterText,
           IntervalStartTime = startTime, IntervalEndTime = endTime,
           AggregationPerSeriesAligner = ''ALIGN_NEXT_OLDER'',
           AggregationAlignmentPeriod = reqWindow t\<rparr>, Suc n))"

definition GetSDReqForPods ::
  "Translator \<Rightarrow> PodList \<Rightarrow> string \<Rightarrow> string \<Rightarrow> nat \<Rightarrow> (error + TimeSeriesListCall) \<times> nat" where
  "GetSDReqForPods t podList metricName namespace n =
     (if length (PodItems podList) = 0 then
        (Inl (BadRequest ''No objects matched provided selector''), n)
      else if length (PodItems podList) > oneOfMax then
        (Inl (InternalError (''GetSDReqForPods called with '' @ show_nat (length (PodItems podList))
           @ '' pod list, but allowed limit is '' @ show_nat oneOfMax @ '' pods'')), n)
      else if useNewResourceModel t then
        (case filterForPods t (getPodNames podList) namespace of
           Inl e \<Rightarrow> (Inl e, n)
         | Inr podsFilter \<Rightarrow>
             (case createListTimeseriesRequest t
                (joinFilters [filterForMetric t (MetricsPrefix (config t) @ ''/'' @ metricName),
                              filterForCluster t, podsFilter, filterForAnyPod t]) n of
                (call, n') \<Rightarrow> (Inr call, n')))
      else
        (case legacyFilterForPods t (getResourceIDs podList) of
           Inl e \<Rightarrow> (Inl e, n)
         | Inr podsFilter \<Rightarrow>
             (case createListTimeseriesRequest t
                (joinFilters [filterForMetric t (MetricsPrefix (config t) @ ''/'' @ metricName),
                              legacyFilterForCluster t, podsFilter]) n of
                (call, n') \<Rightarrow> (Inr call, n'))))"

definition GetSDReqForNodes ::
  "Translator \<Rightarrow> NodeList \<Rightarrow> string \<Rightarrow> nat \<Rightarrow> (error + TimeSeriesListCall) \<times> nat" where
  "GetSDReqForNodes t nodeList metricName n =
     (if length (NodeItems nodeList) = 0 then
        (Inl (BadRequest ''No objects matched provided selector''), n)
      else if length (NodeItems nodeList) > oneOfMax then
        (Inl (InternalError (''GetSDReqForNodes called with '' @ show_nat (length (NodeItems nodeList))
           @ '' node list, but allowed limit is '' @ show_nat oneOfMax @ '' nodes'')), n)
      else if \<not> useNewResourceModel t then
        (Inl (OperationNotSupported
           ''Root scoped metrics are not supported without new Stackdriver resource model enabled''), n)
      else
        (case filterForNodes t (getNodeNames nodeList) of
           Inl e \<Rightarrow> (Inl e, n)
         | Inr nodesFilter \<Rightarrow>
             (case createListTimeseriesRequest t
                (joinFilters [filterForMetric t (MetricsPrefix (config t) @ ''/'' @ metricName),
                              filterForCluster t, nodesFilter, filterForAnyNode t]) n of
                (call, n') \<Rightarrow> (Inr call, n'))))"

section \<open>Quantities and samples\<close>

text \<open>
  A \<^verbatim>\<open>resource.Quantity\<close> is an exact decimal number: an \<^verbatim>\<open>int64\<close> with a decimal
  scale, which \<^verbatim>\<open>Add\<close> replaces by an unbounded decimal when the sum overflows. The
  translator only builds whole units (\<^verbatim>\<open>NewQuantity\<close>) and thousandths
  (\<^verbatim>\<open>NewMilliQuantity\<close>) and adds them, so a quantity is held as its number of
  thousandths. The format (\<^verbatim>\<open>DecimalSI\<close>) only steers printing.
\<close>

datatype Quantity = Milli int

definition NewQuantity :: "64 word \<Rightarrow> Quantity" where
  "NewQuantity v = Milli (1000 * sint v)"

definition NewMilliQuantity :: "64 word \<Rightarrow> Quantity" where
  "NewMilliQuantity v = Milli (sint v)"

fun Add :: "Quantity \<Rightarrow> Quantity \<Rightarrow> Quantity" where
  "Add (Milli a) (Milli b) = Milli (a + b)"

text \<open>
  A \<^verbatim>\<open>float64\<close>: \<open>Finite m e\<close> is the number \<open>m * 2^e\<close>; a binary64 value has
  \<open>\<bar>m\<bar> < 2^53\<close> and \<open>- 1074 \<le> e \<le> 971\<close>. The sign of zero is not kept (no operation here
  tells the two zeros apart). The product of two numbers is the exact product rounded to 53
  bits, ties to even, with the gradual underflow and the overflow of IEEE 754.
\<close>

datatype float64 = Finite int int | Infinite bool | NaN

function bitlength :: "int \<Rightarrow> nat" where
  "bitlength n = (if n \<le> 0 then 0 else Suc (bitlength (n div 2)))"
  by pat_completeness auto
termination
  by (relation "measure nat") auto

definition round_half_even :: "int \<Rightarrow> nat \<Rightarrow> int" where
  "round_half_even m k =
     (let q = m div 2 ^ k; r = m mod 2 ^ k
      in if 2 * r < 2 ^ k then q
         else if 2 * r > 2 ^ k then q + 1
         else if even q then q else q + 1)"

definition round_float64 :: "int \<Rightarrow> int \<Rightarrow> float64" where
  "round_float64 m e =
     (let k = nat (max (int (bitlength \<bar>m\<bar>) - 53) (- 1074 - e));
          m' = round_half_even m k;
          e' = e + int k
      in if \<bar>m'\<bar> * 2 ^ nat (e' + 1074) \<ge> 2 ^ 2098 then Infinite (m < 0) else Finite m' e')"

fun float64_mul :: "float64 \<Rightarrow> float64 \<Rightarrow> float64" where
  "float64_mul (Finite m1 e1) (Finite m2 e2) = round_float64 (m1 * m2) (e1 + e2)"
| "float64_mul NaN y = NaN"
| "float64_mul x NaN = NaN"
| "float64_mul (Infinite s) (Finite m e) = (if m = 0 then NaN else Infinite (s \<noteq> (m < 0)))"
| "float64_mul (Finite m e) (Infinite s) = (if m = 0 then NaN else Infinite (s \<noteq> (m < 0)))"
| "float64_mul (Infinite s1) (Infinite s2) = Infinite (s1 \<noteq> s2)"

text \<open>
  The conversion \<^verbatim>\<open>int64(x)\<close> drops the fraction (towards zero). Where the result does
  not fit, Go leaves the value to the implementation; the model has what amd64 gives, the
  least \<^verbatim>\<open>int64\<close>.
\<close>

definition int64_of_float64 :: "float64 \<Rightarrow> 64 word" where
  "int64_of_float64 x =
     (case x of
        Finite m e \<Rightarrow>
          (let v = (if 0 \<le> e then m * 2 ^ nat e else sgn m * (\<bar>m\<bar> div 2 ^ nat (- e)))
           in if - (2 ^ 63) \<le> v \<and> v < 2 ^ 63 then word_of_int v else word_of_int (- (2 ^ 63)))
      | Infinite s \<Rightarrow> word_of_int (- (2 ^ 63))
      | NaN \<Rightarrow> word_of_int (- (2 ^ 63)))"

text \<open>
  The response of the backend. Of a \<^verbatim>\<open>TypedValue\<close> the translator tests the two
  pointers \<^verbatim>\<open>Int64Value\<close> and \<^verbatim>\<open>DoubleValue\<close>; a \<^verbatim>\<open>nil\<close> pointer is \<open>None\<close>.
  The pointers to a point, to the value of a point and to the resource of a series, which
  the code follows without a test, are taken to be set, as they are in what the backend
  sends. A Go map read at a missing key gives the empty string.
\<close>

record TypedValue =
  Int64Value :: "64 word option"
  DoubleValue :: "float64 option"

record Point =
  PointValue :: TypedValue

record MonitoredResource =
  Type :: string
  Labels :: "string \<rightharpoonup> string"

record TimeSeries =
  Points :: "Point list"
  Resource :: MonitoredResource

record ListTimeSeriesResponse =
  TimeSeriesList :: "TimeSeries list"

definition label :: "(string \<rightharpoonup> string) \<Rightarrow> string \<Rightarrow> string" where
  "label m k = (case m k of None \<Rightarrow> [] | Some v \<Rightarrow> v)"

section \<open>Resource keys\<close>

definition resourceKey :: "Translator \<Rightarrow> ObjectMeta \<Rightarrow> string" where
  "resourceKey t object =
     (if useNewResourceModel t then Namespace object @ '':'' @ Name object
      else UID object)"

definition metricKey :: "Translator \<Rightarrow> TimeSeries \<Rightarrow> error + string" where
  "metricKey t timeSeries =
     (if useNewResourceModel t then
        (if Type (Resource timeSeries) = ''k8s_pod'' then
           Inr (label (Labels (Resource timeSeries)) ''namespace_name'' @ '':''
                @ label (Labels (Resource timeSeries)) ''pod_name'')
         else if Type (Resource timeSeries) = ''k8s_node'' then
           Inr ('':'' @ label (Labels (Resource timeSeries)) ''node_name'')
         else
           Inl (InternalError (''Stackdriver returned incorrect resource type ''
                  @ go_quote (Type (Resource timeSeries)))))
      else Inr (label (Labels (Resource timeSeries)) ''pod_id''))"

section \<open>Aggregating a response\<close>

text \<open>
  The loop of \<^verbatim>\<open>getMetricValuesFromResponse\<close> over the series, with the map built so
  far. The message of the last error ends, in the source, with the \<^verbatim>\<open>%v\<close> rendering of
  the value, which prints addresses; the model keeps the text before it.
\<close>

fun getMetricValues_loop ::
  "Translator \<Rightarrow> (string \<rightharpoonup> Quantity) \<Rightarrow> TimeSeries list \<Rightarrow> error + (string \<rightharpoonup> Quantity)" where
  "getMetricValues_loop t metricValues [] = Inr metricValues"
| "getMetricValues_loop t metricValues (series # rest) =
     (if length (Points series) \<noteq> 1 then
        Inl (InternalError
          (''Expected exactly one Point in TimeSeries from Stackdriver, but received ''
           @ show_nat (length (Points series))))
      else
        (let value = PointValue (hd (Points series)) in
         case metricKey t series of
           Inl err \<Rightarrow> Inl err
         | Inr name \<Rightarrow>
             (let currentQuantity =
                    (case metricValues name of None \<Rightarrow> NewQuantity 0 | Some q \<Rightarrow> q)
              in case Int64Value value of
                   Some i \<Rightarrow>
                     getMetricValues_loop t
                       (metricValues(name \<mapsto> Add currentQuantity (NewQuantity i))) rest
                 | None \<Rightarrow>
                     (case DoubleValue value of
                        Some d \<Rightarrow>
                          getMetricValues_loop t
                            (metricValues(name \<mapsto> Add currentQuantity
                               (NewMilliQuantity
                                  (int64_of_float64 (float64_mul d (Finite 1000 0)))))) rest
                      | None \<Rightarrow>
                          Inl (BadRequest
                            ''Expected metric of type DoubleValue or Int64Value, but received TypedValue: '')))))"

definition getMetricValuesFromResponse ::
  "Translator \<Rightarrow> GroupResource \<Rightarrow> ListTimeSeriesResponse \<Rightarrow> string
     \<Rightarrow> error + (string \<rightharpoonup> Quantity)" where
  "getMetricValuesFromResponse t groupResource response metricName =
     (if length (TimeSeriesList response) < 1 then
        Inl (MetricNotFound groupResource metricName)
      else getMetricValues_loop t Map.empty (TimeSeriesList response))"

section \<open>Metric values\<close>

record ObjectReference =
  refAPIVersion :: string
  refKind :: string
  refName :: string
  refNamespace :: string

record MetricValue =
  DescribedObject :: ObjectReference
  MetricName :: string
  Timestamp :: Time
  Value :: Quantity

definition APIVersionInternal :: string where
  "APIVersionInternal = ''__internal''"

definition metricFor ::
  "Translator \<Rightarrow> Quantity \<Rightarrow> GroupResource \<Rightarrow> string \<Rightarrow> string \<Rightarrow> string \<Rightarrow> nat
     \<Rightarrow> (error + MetricValue) \<times> nat" where
  "metricFor t value groupResource namespace name metricName n =
     (case mapper t (WithVersion groupResource []) of
        Inl err \<Rightarrow> (Inl err, n)
      | Inr kind \<Rightarrow>
          (Inr \<lparr>DescribedObject =
                  \<lparr>refAPIVersion = grGroup groupResource @ ''/'' @ APIVersionInternal,
                   refKind = gvkKind kind, refName = name, refNamespace = namespace\<rparr>,
                MetricName = metricName,
                Timestamp = clock t n,
                Value = value\<rparr>, Suc n))"

text \<open>The loop of \<^verbatim>\<open>metricsFor\<close> over the caller's list, with the result so far.\<close>

fun metricsFor_loop ::
  "Translator \<Rightarrow> (string \<rightharpoonup> Quantity) \<Rightarrow> GroupResource \<Rightarrow> string \<Rightarrow> ObjectMeta list
     \<Rightarrow> MetricValue list \<Rightarrow> nat \<Rightarrow> (error + MetricValue list) \<times> nat" where
  "metricsFor_loop t values groupResource metricName [] res n = (Inr res, n)"
| "metricsFor_loop t values groupResource metricName (item # rest) res n =
     (case values (resourceKey t item) of
        None \<Rightarrow> metricsFor_loop t values groupResource metricName rest res n
      | Some v \<Rightarrow>
          (case metricFor t v groupResource (Namespace item) (Name item) metricName n of
             (Inl err, n') \<Rightarrow> (Inl err, n')
           | (Inr value, n') \<Rightarrow>
               metricsFor_loop t values groupResource metricName rest (res @ [value]) n'))"

definition metricsFor ::
  "Translator \<Rightarrow> (string \<rightharpoonup> Quantity) \<Rightarrow> GroupResource \<Rightarrow> string \<Rightarrow> ObjectMeta list \<Rightarrow> nat
     \<Rightarrow> (error + MetricValue list) \<times> nat" where
  "metricsFor t values groupResource metricName list n =
     metricsFor_loop t values groupResource metricName list [] n"

definition GetRespForMultipleObjects ::
  "Translator \<Rightarrow> ListTimeSeriesResponse \<Rightarrow> ObjectMeta list \<Rightarrow> GroupResource \<Rightarrow> string \<Rightarrow> nat
     \<Rightarrow> (error + MetricValue list) \<times> nat" where
  "GetRespForMultipleObjects t response list groupResource metricName n =
     (case getMetricValuesFromResponse t groupResource response metricName of
        Inl err \<Rightarrow> (Inl err, n)
      | Inr values \<Rightarrow> metricsFor t values groupResource metricName list n)"

definition getPodItems :: "Translator \<Rightarrow> PodList \<Rightarrow> ObjectMeta list" where
  "getPodItems t list = PodItems list"

definition getNodeItems :: "Translator \<Rightarrow> NodeList \<Rightarrow> ObjectMeta list" where
  "getNodeItems t list = NodeItems list"

section \<open>Metric descriptors\<close>

record MetricDescriptor =
  DescriptorType :: string
  MetricKind :: string
  ValueType :: string

record ListMetricDescriptorsResponse =
  MetricDescriptors :: "MetricDescriptor list"

record MetricInfo =
  InfoGroupResource :: GroupResource
  Metric :: string
  Namespaced :: bool

record MetricDescriptorsListCall =
  DescriptorsListName :: string
  DescriptorsFilter :: string

definition ListMetricDescriptors :: "Translator \<Rightarrow> MetricDescriptorsListCall" where
  "ListMetricDescriptors t =
     (let filterText =
            (if useNewResourceModel t
             then joinFilters [filterForMetricPrefix t, filterForCluster t, filterForAnyResource t]
             else joinFilters [filterForMetricPrefix t, legacyFilterForCluster t,
                               legacyFilterForAnyPod t])
      in \<lparr>DescriptorsListName = ''projects/'' @ Project (config t),
          DescriptorsFilter = filterText\<rparr>)"

definition GetMetricsFromSDDescriptorsResp ::
  "Translator \<Rightarrow> ListMetricDescriptorsResponse \<Rightarrow> MetricInfo list" where
  "GetMetricsFromSDDescriptorsResp t response =
     foldl (\<lambda>metrics descriptor.
              if MetricKind descriptor = ''GAUGE''
                 \<and> (ValueType descriptor = ''INT64'' \<or> ValueType descriptor = ''DOUBLE'')
                 \<and> \<not> Contains (TrimPrefix (DescriptorType descriptor)
                                  (MetricsPrefix (config t) @ ''/'')) ''/''
              then metrics @ [\<lparr>InfoGroupResource = \<lparr>grGroup = [], grResource = ''*''\<rparr>,
                               Metric = TrimPrefix (DescriptorType descriptor)
                                          (MetricsPrefix (config t) @ ''/''),
                               Namespaced = True\<rparr>]
              else metrics)
       [] (MetricDescriptors response)"

section \<open>Notions used to state the properties\<close>

text \<open>The filter text of a request that was built, or the error.\<close>

definition filterOf :: "(error + TimeSeriesListCall) \<times> nat \<Rightarrow> error + string" where
  "filterOf r = map_sum id Filter (fst r)"

text \<open>
  A result is a failure with an error of the given kind; \<open>failsWith\<close> is the same for
  the functions that also return the number of clock readings.
\<close>

definition failure :: "(error \<Rightarrow> bool) \<Rightarrow> error + 'a \<Rightarrow> bool" where
  "failure kind x = (case x of Inl e \<Rightarrow> kind e | Inr v \<Rightarrow> False)"

definition failsWith :: "(error \<Rightarrow> bool) \<Rightarrow> (error + 'a) \<times> nat \<Rightarrow> bool" where
  "failsWith kind r = failure kind (fst r)"

text \<open>
  The right-hand side of a clause over quoted literals: the literal itself when there is
  one, and \<^verbatim>\<open>one_of(l1,...,ln)\<close> otherwise.
\<close>

definition one_of_clause :: "string list \<Rightarrow> string" where
  "one_of_clause lits =
     (if length lits = 1 then hd lits else ''one_of('' @ Join lits '','' @ '')'')"

text \<open>How many times a text occurs in another (overlapping occurrences count).\<close>

fun occurrences :: "string \<Rightarrow> string \<Rightarrow> nat" where
  "occurrences [] substr = (if substr = [] then 1 else 0)"
| "occurrences (c # cs) substr =
     (if prefix substr (c # cs) then 1 else 0) + occurrences cs substr"

text \<open>
  The string literals of a filter text, in the order they stand: a literal runs from a
  double quote to the next double quote that no backslash escapes, which is how the
  quoting of \<^verbatim>\<open>%q\<close> delimits a string.
\<close>

fun literals :: "string \<Rightarrow> string list"
  and literals_inside :: "string \<Rightarrow> string \<Rightarrow> string list" where
  "literals [] = []"
| "literals (c # cs) = (if c = CHR 0x22 then literals_inside [c] cs else literals cs)"
| "literals_inside acc [] = []"
| "literals_inside acc [c] = (if c = CHR 0x22 then [acc @ [c]] else [])"
| "literals_inside acc (c # d # ds) =
     (if c = CHR 0x5C then literals_inside (acc @ [c, d]) ds
      else if c = CHR 0x22 then (acc @ [c]) # literals (d # ds)
      else literals_inside (acc @ [c]) (d # ds))"

text \<open>
  What the sample of a series adds to the quantity of its key, in thousandths: an integer
  sample its value times 1000, a floating sample the \<^verbatim>\<open>int64\<close> of its product with
  1000. \<open>numeric\<close> holds of a series whose sample is one or the other.
\<close>

definition contribution :: "TimeSeries \<Rightarrow> int" where
  "contribution series =
     (case Int64Value (PointValue (hd (Points series))) of
        Some i \<Rightarrow> 1000 * sint i
      | None \<Rightarrow>
          (case DoubleValue (PointValue (hd (Points series))) of
             Some d \<Rightarrow> sint (int64_of_float64 (float64_mul d (Finite 1000 0)))
           | None \<Rightarrow> 0))"

definition numeric :: "TimeSeries \<Rightarrow> bool" where
  "numeric series =
     (case Int64Value (PointValue (hd (Points series))) of
        Some i \<Rightarrow> True
      | None \<Rightarrow>
          (case DoubleValue (PointValue (hd (Points series))) of
             Some d \<Rightarrow> True
           | None \<Rightarrow> False))"

text \<open>The quantity that an aggregated map holds for a key, or the error.\<close>

definition quantityAt :: "error + (string \<rightharpoonup> Quantity) \<Rightarrow> string \<Rightarrow> error + Quantity option" where
  "quantityAt r key = map_sum id (\<lambda>values. values key) r"

text \<open>The quantity of a key after a run of contributions, from what the map held.\<close>

definition total :: "Quantity option \<Rightarrow> int list \<Rightarrow> Quantity option" where
  "total start cs =
     (case start of
        None \<Rightarrow> (if cs = [] then None else Some (Milli (sum_list cs)))
      | Some (Milli a) \<Rightarrow> Some (Milli (a + sum_list cs)))"

text \<open>
  The metric value that \<open>metricFor\<close> builds for an object of the caller's list, given the
  kind the mapper resolved and the index of the clock reading.
\<close>

definition emitted ::
  "Translator \<Rightarrow> (string \<rightharpoonup> Quantity) \<Rightarrow> GroupResource \<Rightarrow> string \<Rightarrow> GroupVersionKind
     \<Rightarrow> nat \<times> ObjectMeta \<Rightarrow> MetricValue" where
  "emitted t values groupResource metricName kind p =
     \<lparr>DescribedObject =
        \<lparr>refAPIVersion = grGroup groupResource @ ''/'' @ APIVersionInternal,
         refKind = gvkKind kind, refName = Name (snd p), refNamespace = Namespace (snd p)\<rparr>,
      MetricName = metricName,
      Timestamp = clock t (fst p),
      Value = the (values (resourceKey t (snd p)))\<rparr>"

subsection \<open>Concrete inputs\<close>

definition example_config :: GceConfig where
  "example_config = \<lparr>Project = ''proj'', Cluster = ''c1'', Location = ''us-east1-b'',
     MetricsPrefix = ''custom.googleapis.com''\<rparr>"

definition example_mapper :: "GroupVersionResource \<Rightarrow> error + GroupVersionKind" where
  "example_mapper gvr =
     (if gvrResource gvr = ''pods''
      then Inr \<lparr>gvkGroup = gvrGroup gvr, gvkVersion = gvrVersion gvr, gvkKind = ''Pod''\<rparr>
      else if gvrResource gvr = ''nodes''
      then Inr \<lparr>gvkGroup = gvrGroup gvr, gvkVersion = gvrVersion gvr, gvkKind = ''Node''\<rparr>
      else Inl (MapperError ''no matches for resource''))"

definition example_translator :: "bool \<Rightarrow> Translator" where
  "example_translator newModel =
     \<lparr>config = example_config, reqWindow = 300000000000,
      clock = (\<lambda>n. 1500000000000000000 + int n), mapper = example_mapper,
      useNewResourceModel = newModel\<rparr>"

definition example_object :: "string \<Rightarrow> string \<Rightarrow> string \<Rightarrow> ObjectMeta" where
  "example_object namespace name uid = \<lparr>Name = name, Namespace = namespace, UID = uid\<rparr>"

definition int64_sample :: "64 word \<Rightarrow> Point" where
  "int64_sample i = \<lparr>PointValue = \<lparr>Int64Value = Some i, DoubleValue = None\<rparr>\<rparr>"

definition double_sample :: "float64 \<Rightarrow> Point" where
  "double_sample d = \<lparr>PointValue = \<lparr>Int64Value = None, DoubleValue = Some d\<rparr>\<rparr>"

definition example_pod_series :: "string \<Rightarrow> string \<Rightarrow> Point list \<Rightarrow> TimeSeries" where
  "example_pod_series namespace name points =
     \<lparr>Points = points,
      Resource = \<lparr>Type = ''k8s_pod'',
                  Labels = [''namespace_name'' \<mapsto> namespace, ''pod_name'' \<mapsto> name]\<rparr>\<rparr>"

definition example_group_resource :: GroupResource where
  "example_group_resource = \<lparr>grGroup = [], grResource = ''pods''\<rparr>"

section \<open>Properties of the request builders\<close>

lemma filterForPods_nonempty:
  "names \<noteq> [] \<Longrightarrow> filterForPods t names ns =
     Inr (''resource.label.namespace_name = '' @ go_quote ns
          @ '' AND resource.label.pod_name = '' @ one_of_clause names)"
  by (cases "(t, names, ns)" rule: filterForPods.cases) (simp_all add: one_of_clause_def)

lemma filterForNodes_nonempty:
  "names \<noteq> [] \<Longrightarrow> filterForNodes t names =
     Inr (''resource.label.node_name = '' @ one_of_clause names)"
  by (cases "(t, names)" rule: filterForNodes.cases) (simp_all add: one_of_clause_def)

lemma legacyFilterForPods_nonempty:
  "ids \<noteq> [] \<Longrightarrow> legacyFilterForPods t ids =
     Inr (''resource.label.pod_id = '' @ one_of_clause ids)"
  by (cases "(t, ids)" rule: legacyFilterForPods.cases) (simp_all add: one_of_clause_def)

lemma GetSDReqForPods_current:
  assumes "useNewResourceModel t"
    and "1 \<le> length (PodItems podList)" and "length (PodItems podList) \<le> oneOfMax"
  shows \<open>filterOf (GetSDReqForPods t podList metricName namespace n) =
    Inr (Join [''metric.type = '' @ go_quote (MetricsPrefix (config t) @ ''/'' @ metricName),
               ''resource.label.project_id = '' @ go_quote (Project (config t)),
               ''resource.label.cluster_name = '' @ go_quote (Cluster (config t)),
               ''resource.label.location = '' @ go_quote (Location (config t)),
               ''resource.label.namespace_name = '' @ go_quote namespace,
               ''resource.label.pod_name = ''
                 @ one_of_clause (map (\<lambda>p. go_quote (Name p)) (PodItems podList)),
               ''resource.type = "k8s_pod"'']
           '' AND '')\<close>
proof -
  have ne: "getPodNames podList \<noteq> []"
    using assms(2) by (auto simp: getPodNames_def)
  have names: "getPodNames podList = map (\<lambda>p. go_quote (Name p)) (PodItems podList)"
    by (simp add: getPodNames_def)
  have "PodItems podList \<noteq> []"
    using assms(2) by auto
  then show ?thesis
    using assms
    by (simp add: GetSDReqForPods_def filterForPods_nonempty [OF ne] filterOf_def
        createListTimeseriesRequest_def joinFilters_def filterForMetric_def filterForCluster_def
        filterForAnyPod_def Let_def names [symmetric])
qed

lemma GetSDReqForPods_legacy:
  assumes "\<not> useNewResourceModel t"
    and "1 \<le> length (PodItems podList)" and "length (PodItems podList) \<le> oneOfMax"
  shows \<open>filterOf (GetSDReqForPods t podList metricName namespace n) =
    Inr (Join [''metric.type = '' @ go_quote (MetricsPrefix (config t) @ ''/'' @ metricName),
               ''resource.label.project_id = '' @ go_quote (Project (config t)),
               ''resource.label.cluster_name = '' @ go_quote (Cluster (config t)),
               ''resource.label.container_name = ""'',
               ''resource.label.pod_id = ''
                 @ one_of_clause (map (\<lambda>p. go_quote (UID p)) (PodItems podList))]
           '' AND '')\<close>
proof -
  have ne: "getResourceIDs podList \<noteq> []"
    using assms(2) by (auto simp: getResourceIDs_def)
  have ids: "getResourceIDs podList = map (\<lambda>p. go_quote (UID p)) (PodItems podList)"
    by (simp add: getResourceIDs_def)
  have "PodItems podList \<noteq> []"
    using assms(2) by auto
  then show ?thesis
    using assms
    by (simp add: GetSDReqForPods_def legacyFilterForPods_nonempty [OF ne] filterOf_def
        createListTimeseriesRequest_def joinFilters_def filterForMetric_def
        legacyFilterForCluster_def Let_def ids [symmetric])
qed

lemma GetSDReqForNodes_current:
  assumes "useNewResourceModel t"
    and "1 \<le> length (NodeItems nodeList)" and "length (NodeItems nodeList) \<le> oneOfMax"
  shows \<open>filterOf (GetSDReqForNodes t nodeList metricName n) =
    Inr (Join [''metric.type = '' @ go_quote (MetricsPrefix (config t) @ ''/'' @ metricName),
               ''resource.label.project_id = '' @ go_quote (Project (config t)),
               ''resource.label.cluster_name = '' @ go_quote (Cluster (config t)),
               ''resource.label.location = '' @ go_quote (Location (config t)),
               ''resource.label.node_name = ''
                 @ one_of_clause (map (\<lambda>p. go_quote (Name p)) (NodeItems nodeList)),
               ''resource.type = "k8s_node"'']
           '' AND '')\<close>
proof -
  have ne: "getNodeNames nodeList \<noteq> []"
    using assms(2) by (auto simp: getNodeNames_def)
  have names: "getNodeNames nodeList = map (\<lambda>p. go_quote (Name p)) (NodeItems nodeList)"
    by (simp add: getNodeNames_def)
  have "NodeItems nodeList \<noteq> []"
    using assms(2) by auto
  then show ?thesis
    using assms
    by (simp add: GetSDReqForNodes_def filterForNodes_nonempty [OF ne] filterOf_def
        createListTimeseriesRequest_def joinFilters_def filterForMetric_def filterForCluster_def
        filterForAnyNode_def Let_def names [symmetric])
qed

text \<open>
  C5. An empty list is rejected with a bad-request error and a list of more than 100
  objects with an internal error, by \<open>GetSDReqForPods\<close> and by \<open>GetSDReqForNodes\<close>, under
  either resource model. The failure comes before the filter: the clock, which the code
  reads once the filter is built, has not been read, and on the empty list the filter
  builders, had they been called, would have ended the process rather than return.
\<close>

theorem C5_length_guards:
  "(length (PodItems podList) = 0 \<longrightarrow>
      GetSDReqForPods t podList metricName namespace n =
        (Inl (BadRequest ''No objects matched provided selector''), n)
      \<and> is_Fatal (projl (filterForPods t (getPodNames podList) namespace))
      \<and> is_Fatal (projl (legacyFilterForPods t (getResourceIDs podList))))
   \<and> (length (NodeItems nodeList) = 0 \<longrightarrow>
      GetSDReqForNodes t nodeList metricName n =
        (Inl (BadRequest ''No objects matched provided selector''), n)
      \<and> is_Fatal (projl (filterForNodes t (getNodeNames nodeList))))
   \<and> (length (PodItems podList) > oneOfMax \<longrightarrow>
      GetSDReqForPods t podList metricName namespace n =
        (Inl (InternalError (''GetSDReqForPods called with ''
           @ show_nat (length (PodItems podList))
           @ '' pod list, but allowed limit is '' @ show_nat oneOfMax @ '' pods'')), n))
   \<and> (length (NodeItems nodeList) > oneOfMax \<longrightarrow>
      GetSDReqForNodes t nodeList metricName n =
        (Inl (InternalError (''GetSDReqForNodes called with ''
           @ show_nat (length (NodeItems nodeList))
           @ '' node list, but allowed limit is '' @ show_nat oneOfMax @ '' nodes'')), n))"
  by (simp add: GetSDReqForPods_def GetSDReqForNodes_def getPodNames_def getNodeNames_def
      getResourceIDs_def oneOfMax_def)

theorem C5_length_guards_witness:
  "length (PodItems \<lparr>PodItems = []\<rparr>) = 0
   \<and> failsWith is_BadRequest
        (GetSDReqForPods (example_translator True) \<lparr>PodItems = []\<rparr> ''qps'' ''default'' 0)
   \<and> length (NodeItems \<lparr>NodeItems = []\<rparr>) = 0
   \<and> failsWith is_BadRequest
        (GetSDReqForNodes (example_translator True) \<lparr>NodeItems = []\<rparr> ''qps'' 0)
   \<and> length (PodItems \<lparr>PodItems = replicate 101 (example_object ''default'' ''pod-a'' ''uid-a'')\<rparr>)
        > oneOfMax
   \<and> failsWith is_InternalError
        (GetSDReqForPods (example_translator False)
           \<lparr>PodItems = replicate 101 (example_object ''default'' ''pod-a'' ''uid-a'')\<rparr>
           ''qps'' ''default'' 0)
   \<and> length (NodeItems \<lparr>NodeItems = replicate 101 (example_object [] ''node-a'' ''uid-a'')\<rparr>)
        > oneOfMax
   \<and> failsWith is_InternalError
        (GetSDReqForNodes (example_translator True)
           \<lparr>NodeItems = replicate 101 (example_object [] ''node-a'' ''uid-a'')\<rparr> ''qps'' 0)"
  using C5_length_guards [of "\<lparr>PodItems = []\<rparr>" "example_translator True" "''qps''"
      "''default''" 0 "\<lparr>NodeItems = []\<rparr>"]
    C5_length_guards
      [of "\<lparr>PodItems = replicate 101 (example_object ''default'' ''pod-a'' ''uid-a'')\<rparr>"
        "example_translator False" "''qps''" "''default''" 0
        "\<lparr>NodeItems = replicate 101 (example_object [] ''node-a'' ''uid-a'')\<rparr>"]
    C5_length_guards
      [of "\<lparr>PodItems = []\<rparr>" "example_translator True" "''qps''" "''default''" 0
        "\<lparr>NodeItems = replicate 101 (example_object [] ''node-a'' ''uid-a'')\<rparr>"]
  by (simp add: failsWith_def failure_def oneOfMax_def)

text \<open>
  C1, as the code has it. Under the legacy model \<open>GetSDReqForNodes\<close> checks the length of
  the list first: the empty list fails with the bad-request error and a list of more than
  100 nodes with the internal error; every list of 1 to 100 nodes fails with the
  operation-not-supported error.
\<close>

theorem C1_legacy_nodes:
  "\<not> useNewResourceModel t \<Longrightarrow>
   GetSDReqForNodes t nodeList metricName n =
     (Inl (if length (NodeItems nodeList) = 0 then
             BadRequest ''No objects matched provided selector''
           else if length (NodeItems nodeList) > oneOfMax then
             InternalError (''GetSDReqForNodes called with ''
               @ show_nat (length (NodeItems nodeList))
               @ '' node list, but allowed limit is '' @ show_nat oneOfMax @ '' nodes'')
           else
             OperationNotSupported
               ''Root scoped metrics are not supported without new Stackdriver resource model enabled''),
      n)"
  by (simp add: GetSDReqForNodes_def)

theorem C1_legacy_nodes_witness:
  "\<not> useNewResourceModel (example_translator False)
   \<and> GetSDReqForNodes (example_translator False)
        \<lparr>NodeItems = [example_object [] ''node-a'' ''uid-a'']\<rparr> ''qps'' 0 =
      (Inl (OperationNotSupported
        ''Root scoped metrics are not supported without new Stackdriver resource model enabled''), 0)"
  using C1_legacy_nodes [of "example_translator False"
      "\<lparr>NodeItems = [example_object [] ''node-a'' ''uid-a'']\<rparr>" "''qps''" 0]
  by (simp add: example_translator_def oneOfMax_def)

text \<open>
  C1 as stated fails on the empty node list, and on a list of 101 nodes: under the legacy
  model the errors there are the bad-request and the internal one, not
  operation-not-supported.
\<close>

theorem C1_counterexample:
  "\<not> failsWith is_OperationNotSupported
       (GetSDReqForNodes (example_translator False) \<lparr>NodeItems = []\<rparr> ''qps'' 0)
   \<and> GetSDReqForNodes (example_translator False) \<lparr>NodeItems = []\<rparr> ''qps'' 0 =
       (Inl (BadRequest ''No objects matched provided selector''), 0)
   \<and> \<not> failsWith is_OperationNotSupported
       (GetSDReqForNodes (example_translator False)
          \<lparr>NodeItems = replicate 101 (example_object [] ''node-a'' ''uid-a'')\<rparr> ''qps'' 0)
   \<and> failsWith is_InternalError
       (GetSDReqForNodes (example_translator False)
          \<lparr>NodeItems = replicate 101 (example_object [] ''node-a'' ''uid-a'')\<rparr> ''qps'' 0)"
  by (simp add: GetSDReqForNodes_def failsWith_def failure_def example_translator_def oneOfMax_def)

text \<open>
  C10. \<open>Fatal\<close> is the value of a filter builder on the empty list and of nothing else.
  \<open>GetSDReqForPods\<close> and \<open>GetSDReqForNodes\<close> never end that way, whatever the list: the
  builders are reached with the names or ids of a list of 1 to 100 objects, where each of
  them returns a filter, and a request comes back.
\<close>

theorem C10_fatal_unreachable:
  "\<not> failsWith is_Fatal (GetSDReqForPods t podList metricName namespace n)
   \<and> \<not> failsWith is_Fatal (GetSDReqForNodes t nodeList metricName n)
   \<and> (1 \<le> length (PodItems podList) \<and> length (PodItems podList) \<le> oneOfMax \<longrightarrow>
        \<not> isl (filterForPods t (getPodNames podList) namespace)
        \<and> \<not> isl (legacyFilterForPods t (getResourceIDs podList))
        \<and> \<not> isl (fst (GetSDReqForPods t podList metricName namespace n)))
   \<and> (1 \<le> length (NodeItems nodeList) \<and> length (NodeItems nodeList) \<le> oneOfMax \<longrightarrow>
        \<not> isl (filterForNodes t (getNodeNames nodeList))
        \<and> (useNewResourceModel t \<longrightarrow>
             \<not> isl (fst (GetSDReqForNodes t nodeList metricName n))))"
proof -
  have pods: "\<not> isl (filterForPods t (getPodNames podList) namespace)
      \<and> \<not> isl (legacyFilterForPods t (getResourceIDs podList))"
    if "PodItems podList \<noteq> []"
    using that
    by (simp add: filterForPods_nonempty legacyFilterForPods_nonempty getPodNames_def
        getResourceIDs_def)
  have nodes: "\<not> isl (filterForNodes t (getNodeNames nodeList))"
    if "NodeItems nodeList \<noteq> []"
    using that by (simp add: filterForNodes_nonempty getNodeNames_def)
  have a: "\<not> failsWith is_Fatal (GetSDReqForPods t podList metricName namespace n)"
    using pods
    by (cases "PodItems podList = []")
      (auto simp: failsWith_def failure_def GetSDReqForPods_def createListTimeseriesRequest_def Let_def
        split: sum.splits)
  have b: "\<not> failsWith is_Fatal (GetSDReqForNodes t nodeList metricName n)"
    using nodes
    by (cases "NodeItems nodeList = []")
      (auto simp: failsWith_def failure_def GetSDReqForNodes_def createListTimeseriesRequest_def Let_def
        split: sum.splits)
  have c: "\<not> isl (fst (GetSDReqForPods t podList metricName namespace n))"
    if "1 \<le> length (PodItems podList)" "length (PodItems podList) \<le> oneOfMax"
    using that GetSDReqForPods_current [of t podList metricName namespace n]
      GetSDReqForPods_legacy [of t podList metricName namespace n]
    by (cases "useNewResourceModel t"; cases "fst (GetSDReqForPods t podList metricName namespace n)")
      (simp_all add: filterOf_def)
  have d: "\<not> isl (fst (GetSDReqForNodes t nodeList metricName n))"
    if "1 \<le> length (NodeItems nodeList)" "length (NodeItems nodeList) \<le> oneOfMax"
      "useNewResourceModel t"
    using that GetSDReqForNodes_current [of t nodeList metricName n]
    by (cases "fst (GetSDReqForNodes t nodeList metricName n)") (simp_all add: filterOf_def)
  have ne: "1 \<le> length xs \<Longrightarrow> xs \<noteq> []" for xs :: "ObjectMeta list"
    by auto
  show ?thesis
    using a b c d pods nodes ne by blast
qed

theorem C10_fatal_unreachable_witness:
  "1 \<le> length (PodItems \<lparr>PodItems = [example_object ''default'' ''pod-a'' ''uid-a'']\<rparr>)
   \<and> length (PodItems \<lparr>PodItems = [example_object ''default'' ''pod-a'' ''uid-a'']\<rparr>) \<le> oneOfMax
   \<and> 1 \<le> length (NodeItems \<lparr>NodeItems = [example_object [] ''node-a'' ''uid-n'']\<rparr>)
   \<and> length (NodeItems \<lparr>NodeItems = [example_object [] ''node-a'' ''uid-n'']\<rparr>) \<le> oneOfMax
   \<and> useNewResourceModel (example_translator True)
   \<and> \<not> isl (fst (GetSDReqForPods (example_translator True)
          \<lparr>PodItems = [example_object ''default'' ''pod-a'' ''uid-a'']\<rparr> ''qps'' ''default'' 0))
   \<and> \<not> isl (fst (GetSDReqForNodes (example_translator True)
          \<lparr>NodeItems = [example_object [] ''node-a'' ''uid-n'']\<rparr> ''qps'' 0))"
  using C10_fatal_unreachable [of "example_translator True"
      "\<lparr>PodItems = [example_object ''default'' ''pod-a'' ''uid-a'']\<rparr>" "''qps''" "''default''" 0
      "\<lparr>NodeItems = [example_object [] ''node-a'' ''uid-n'']\<rparr>"]
  by (simp add: oneOfMax_def example_translator_def)

text \<open>
  C3. Under the legacy model, for a list of 1 to 100 pods, the filter is the five clauses
  below joined by \<^verbatim>\<open>AND\<close>: the metric type, the project, the cluster (no location
  clause), the fixed clause \<^verbatim>\<open>resource.label.container_name = ""\<close>, which keeps the rows
  of whole pods only, and the clause over \<^verbatim>\<open>pod_id\<close>, an equality for one pod and
  \<^verbatim>\<open>one_of\<close> for more.
\<close>

theorem C3_legacy_pod_filter:
  assumes "\<not> useNewResourceModel t"
    and "1 \<le> length (PodItems podList)" and "length (PodItems podList) \<le> 100"
  shows \<open>filterOf (GetSDReqForPods t podList metricName namespace n) =
    Inr (Join [''metric.type = '' @ go_quote (MetricsPrefix (config t) @ ''/'' @ metricName),
               ''resource.label.project_id = '' @ go_quote (Project (config t)),
               ''resource.label.cluster_name = '' @ go_quote (Cluster (config t)),
               ''resource.label.container_name = ""'',
               ''resource.label.pod_id = '' @
                 (if length (PodItems podList) = 1 then go_quote (UID (hd (PodItems podList)))
                  else ''one_of('' @ Join (map (\<lambda>p. go_quote (UID p)) (PodItems podList)) '',''
                       @ '')'')]
           '' AND '')\<close>
proof -
  have "PodItems podList \<noteq> []"
    using assms(2) by auto
  then have "one_of_clause (map (\<lambda>p. go_quote (UID p)) (PodItems podList)) =
      (if length (PodItems podList) = 1 then go_quote (UID (hd (PodItems podList)))
       else ''one_of('' @ Join (map (\<lambda>p. go_quote (UID p)) (PodItems podList)) '','' @ '')'')"
    by (simp add: one_of_clause_def hd_map)
  then show ?thesis
    using GetSDReqForPods_legacy [of t podList metricName namespace n] assms
    by (simp add: oneOfMax_def)
qed

theorem C3_legacy_pod_filter_witness:
  \<open>\<not> useNewResourceModel (example_translator False)
   \<and> 1 \<le> length (PodItems \<lparr>PodItems = [example_object ''default'' ''pod-a'' ''uid-a'',
                                          example_object ''default'' ''pod-b'' ''uid-b'']\<rparr>)
   \<and> length (PodItems \<lparr>PodItems = [example_object ''default'' ''pod-a'' ''uid-a'',
                                      example_object ''default'' ''pod-b'' ''uid-b'']\<rparr>) \<le> 100
   \<and> filterOf (GetSDReqForPods (example_translator False)
        \<lparr>PodItems = [example_object ''default'' ''pod-a'' ''uid-a'',
                     example_object ''default'' ''pod-b'' ''uid-b'']\<rparr> ''qps'' ''default'' 0) =
      Inr ''metric.type = "custom.googleapis.com/qps" AND resource.label.project_id = "proj" AND resource.label.cluster_name = "c1" AND resource.label.container_name = "" AND resource.label.pod_id = one_of("uid-a","uid-b")''\<close>
  using C3_legacy_pod_filter [of "example_translator False"
      "\<lparr>PodItems = [example_object ''default'' ''pod-a'' ''uid-a'',
                    example_object ''default'' ''pod-b'' ''uid-b'']\<rparr>" "''qps''" "''default''" 0]
  by (simp add: example_translator_def example_config_def example_object_def go_quote_def
      quote_byte_def)

subsection \<open>The literals of a built filter\<close>

lemma literals_skip: "CHR 0x22 \<notin> set a \<Longrightarrow> literals (a @ rest) = literals rest"
  by (induction a) auto

lemma lowerhex_plain: "lowerhex d \<noteq> CHR 0x22 \<and> lowerhex d \<noteq> CHR 0x5C"
proof -
  have "lowerhex d \<in> set ''0123456789abcdef''"
    unfolding lowerhex_def by (rule nth_mem) simp
  then show ?thesis by auto
qed

lemma literals_inside_plain:
  "c \<noteq> CHR 0x22 \<Longrightarrow> c \<noteq> CHR 0x5C \<Longrightarrow> r \<noteq> [] \<Longrightarrow>
   literals_inside acc (c # r) = literals_inside (acc @ [c]) r"
  by (cases r) auto

lemma literals_inside_quote_byte:
  "r \<noteq> [] \<Longrightarrow>
   literals_inside acc (quote_byte c @ r) = literals_inside (acc @ quote_byte c) r"
  using lowerhex_plain [of "of_char c div 16"] lowerhex_plain [of "of_char c mod 16"]
  by (auto simp: quote_byte_def Let_def literals_inside_plain)

lemma literals_inside_body:
  "literals_inside acc (concat (map quote_byte s) @ CHR 0x22 # rest) =
     (acc @ concat (map quote_byte s) @ [CHR 0x22]) # literals rest"
proof (induction s arbitrary: acc)
  case Nil
  show ?case by (cases rest) auto
next
  case (Cons c s)
  have "literals_inside acc (quote_byte c @ (concat (map quote_byte s) @ CHR 0x22 # rest)) =
        literals_inside (acc @ quote_byte c) (concat (map quote_byte s) @ CHR 0x22 # rest)"
    by (rule literals_inside_quote_byte) simp
  then show ?case using Cons.IH [of "acc @ quote_byte c"] by simp
qed

lemma literals_go_quote: "literals (go_quote s @ rest) = go_quote s # literals rest"
  using literals_inside_body [of "[CHR 0x22]" s rest] by (simp add: go_quote_def)

lemma literals_Join_quoted:
  "literals (Join (map (\<lambda>p. go_quote (f p)) xs) '','' @ rest) =
     map (\<lambda>p. go_quote (f p)) xs @ literals rest"
proof (induction xs rule: induct_list012)
  case 1
  then show ?case by simp
next
  case (2 x)
  then show ?case by (simp add: literals_go_quote)
next
  case (3 x y zs)
  have "literals (go_quote (f x) @ ('','' @ Join (map (\<lambda>p. go_quote (f p)) (y # zs)) '','' @ rest)) =
        go_quote (f x) # literals ('','' @ Join (map (\<lambda>p. go_quote (f p)) (y # zs)) '','' @ rest)"
    by (rule literals_go_quote)
  moreover have "literals ('','' @ (Join (map (\<lambda>p. go_quote (f p)) (y # zs)) '','' @ rest)) =
        literals (Join (map (\<lambda>p. go_quote (f p)) (y # zs)) '','' @ rest)"
    by (rule literals_skip) simp
  ultimately show ?case using 3 by simp
qed

lemma literals_one_of_clause:
  assumes "xs \<noteq> []"
  shows "literals (one_of_clause (map (\<lambda>p. go_quote (f p)) xs) @ rest) =
     map (\<lambda>p. go_quote (f p)) xs @ literals rest"
proof (cases "length xs = 1")
  case True
  then obtain x where "xs = [x]" by (cases xs) auto
  then show ?thesis using literals_go_quote [of "f x" rest] by (simp add: one_of_clause_def)
next
  case False
  have "literals (''one_of('' @ (Join (map (\<lambda>p. go_quote (f p)) xs) '','' @ '')'' @ rest)) =
        literals (Join (map (\<lambda>p. go_quote (f p)) xs) '','' @ '')'' @ rest)"
    by (rule literals_skip) simp
  then show ?thesis
    using False literals_Join_quoted [of f xs "'')'' @ rest"]
    by (simp add: one_of_clause_def)
qed

lemma literals_one_of_clause_last:
  "xs \<noteq> [] \<Longrightarrow>
   literals (one_of_clause (map (\<lambda>p. go_quote (f p)) xs)) = map (\<lambda>p. go_quote (f p)) xs"
  using literals_one_of_clause [of xs f "[]"] by simp

lemma literals_pods_current:
  assumes "xs \<noteq> []"
  shows \<open>literals (Join [''metric.type = '' @ go_quote m,
                   ''resource.label.project_id = '' @ go_quote p,
                   ''resource.label.cluster_name = '' @ go_quote c,
                   ''resource.label.location = '' @ go_quote l,
                   ''resource.label.namespace_name = '' @ go_quote ns,
                   ''resource.label.pod_name = '' @ one_of_clause (map (\<lambda>p. go_quote (Name p)) xs),
                   ''resource.type = "k8s_pod"'']
               '' AND '') =
   [go_quote m, go_quote p, go_quote c, go_quote l, go_quote ns]
     @ map (\<lambda>p. go_quote (Name p)) xs @ [''"k8s_pod"'']\<close>
  using assms by (simp add: literals_go_quote literals_one_of_clause)

lemma literals_pods_legacy:
  assumes "xs \<noteq> []"
  shows \<open>literals (Join [''metric.type = '' @ go_quote m,
                   ''resource.label.project_id = '' @ go_quote p,
                   ''resource.label.cluster_name = '' @ go_quote c,
                   ''resource.label.container_name = ""'',
                   ''resource.label.pod_id = '' @ one_of_clause (map (\<lambda>p. go_quote (UID p)) xs)]
               '' AND '') =
   [go_quote m, go_quote p, go_quote c, ''""''] @ map (\<lambda>p. go_quote (UID p)) xs\<close>
  using assms by (simp add: literals_go_quote literals_one_of_clause_last)

lemma literals_nodes_current:
  assumes "xs \<noteq> []"
  shows \<open>literals (Join [''metric.type = '' @ go_quote m,
                   ''resource.label.project_id = '' @ go_quote p,
                   ''resource.label.cluster_name = '' @ go_quote c,
                   ''resource.label.location = '' @ go_quote l,
                   ''resource.label.node_name = '' @ one_of_clause (map (\<lambda>p. go_quote (Name p)) xs),
                   ''resource.type = "k8s_node"'']
               '' AND '') =
   [go_quote m, go_quote p, go_quote c, go_quote l]
     @ map (\<lambda>p. go_quote (Name p)) xs @ [''"k8s_node"'']\<close>
  using assms by (simp add: literals_go_quote literals_one_of_clause)

lemma one_of_clause_if:
  "xs \<noteq> [] \<Longrightarrow> one_of_clause (map (\<lambda>p. go_quote (f p)) xs) =
      (if length xs = 1 then go_quote (f (hd xs))
       else ''one_of('' @ Join (map (\<lambda>p. go_quote (f p)) xs) '','' @ '')'')"
  by (simp add: one_of_clause_def hd_map)

lemma filter_pods_current:
  assumes "1 \<le> length (PodItems podList)" "length (PodItems podList) \<le> 100"
    and "useNewResourceModel t"
  shows \<open>filterOf (GetSDReqForPods t podList metricName namespace n) =
        Inr (Join [''metric.type = '' @ go_quote (MetricsPrefix (config t) @ ''/'' @ metricName),
                   ''resource.label.project_id = '' @ go_quote (Project (config t)),
                   ''resource.label.cluster_name = '' @ go_quote (Cluster (config t)),
                   ''resource.label.location = '' @ go_quote (Location (config t)),
                   ''resource.label.namespace_name = '' @ go_quote namespace,
                   ''resource.label.pod_name = '' @
                     (if length (PodItems podList) = 1 then go_quote (Name (hd (PodItems podList)))
                      else ''one_of('' @ Join (map (\<lambda>p. go_quote (Name p)) (PodItems podList)) '',''
                           @ '')''),
                   ''resource.type = "k8s_pod"'']
               '' AND '')
      \<and> map_sum id literals (filterOf (GetSDReqForPods t podList metricName namespace n)) =
        Inr ([go_quote (MetricsPrefix (config t) @ ''/'' @ metricName),
              go_quote (Project (config t)), go_quote (Cluster (config t)),
              go_quote (Location (config t)), go_quote namespace]
             @ map (\<lambda>p. go_quote (Name p)) (PodItems podList) @ [''"k8s_pod"''])\<close>
proof -
  have ne: "PodItems podList \<noteq> []"
    using assms(1) by auto
  have le: "length (PodItems podList) \<le> oneOfMax"
    using assms(2) by (simp add: oneOfMax_def)
  note f = GetSDReqForPods_current [OF assms(3) assms(1) le, of metricName namespace n]
  show ?thesis
    unfolding f one_of_clause_if [OF ne, symmetric]
    by (simp only: map_sum.simps id_apply literals_pods_current [OF ne] simp_thms)
qed

lemma filter_pods_legacy:
  assumes "1 \<le> length (PodItems podList)" "length (PodItems podList) \<le> 100"
    and "\<not> useNewResourceModel t"
  shows \<open>filterOf (GetSDReqForPods t podList metricName namespace n) =
        Inr (Join [''metric.type = '' @ go_quote (MetricsPrefix (config t) @ ''/'' @ metricName),
                   ''resource.label.project_id = '' @ go_quote (Project (config t)),
                   ''resource.label.cluster_name = '' @ go_quote (Cluster (config t)),
                   ''resource.label.container_name = ""'',
                   ''resource.label.pod_id = '' @
                     (if length (PodItems podList) = 1 then go_quote (UID (hd (PodItems podList)))
                      else ''one_of('' @ Join (map (\<lambda>p. go_quote (UID p)) (PodItems podList)) '',''
                           @ '')'')]
               '' AND '')
      \<and> map_sum id literals (filterOf (GetSDReqForPods t podList metricName namespace n)) =
        Inr ([go_quote (MetricsPrefix (config t) @ ''/'' @ metricName),
              go_quote (Project (config t)), go_quote (Cluster (config t)), ''""'']
             @ map (\<lambda>p. go_quote (UID p)) (PodItems podList))\<close>
proof -
  have ne: "PodItems podList \<noteq> []"
    using assms(1) by auto
  have le: "length (PodItems podList) \<le> oneOfMax"
    using assms(2) by (simp add: oneOfMax_def)
  note f = GetSDReqForPods_legacy [OF assms(3) assms(1) le, of metricName namespace n]
  show ?thesis
    unfolding f one_of_clause_if [OF ne, symmetric]
    by (simp only: map_sum.simps id_apply literals_pods_legacy [OF ne] simp_thms)
qed

lemma filter_nodes_current:
  assumes "1 \<le> length (NodeItems nodeList)" "length (NodeItems nodeList) \<le> 100"
    and "useNewResourceModel t"
  shows \<open>filterOf (GetSDReqForNodes t nodeList metricName n) =
        Inr (Join [''metric.type = '' @ go_quote (MetricsPrefix (config t) @ ''/'' @ metricName),
                   ''resource.label.project_id = '' @ go_quote (Project (config t)),
                   ''resource.label.cluster_name = '' @ go_quote (Cluster (config t)),
                   ''resource.label.location = '' @ go_quote (Location (config t)),
                   ''resource.label.node_name = '' @
                     (if length (NodeItems nodeList) = 1 then go_quote (Name (hd (NodeItems nodeList)))
                      else ''one_of('' @ Join (map (\<lambda>p. go_quote (Name p)) (NodeItems nodeList)) '',''
                           @ '')''),
                   ''resource.type = "k8s_node"'']
               '' AND '')
      \<and> map_sum id literals (filterOf (GetSDReqForNodes t nodeList metricName n)) =
        Inr ([go_quote (MetricsPrefix (config t) @ ''/'' @ metricName),
              go_quote (Project (config t)), go_quote (Cluster (config t)),
              go_quote (Location (config t))]
             @ map (\<lambda>p. go_quote (Name p)) (NodeItems nodeList) @ [''"k8s_node"''])\<close>
proof -
  have ne: "NodeItems nodeList \<noteq> []"
    using assms(1) by auto
  have le: "length (NodeItems nodeList) \<le> oneOfMax"
    using assms(2) by (simp add: oneOfMax_def)
  note f = GetSDReqForNodes_current [OF assms(3) assms(1) le, of metricName n]
  show ?thesis
    unfolding f one_of_clause_if [OF ne, symmetric]
    by (simp only: map_sum.simps id_apply literals_nodes_current [OF ne] simp_thms)
qed

text \<open>
  C6, as the code has it. For a list of 1 to 100 objects the filter is the clauses below
  joined by \<^verbatim>\<open>AND\<close>. The clause over \<^verbatim>\<open>pod_name\<close>, \<^verbatim>\<open>node_name\<close> or
  \<^verbatim>\<open>pod_id\<close> is the label, \<^verbatim>\<open>=\<close> and the quoted name (or uid) when the list has one
  object, and \<^verbatim>\<open>one_of(...)\<close> over the quoted names, separated by commas, when it has
  more. The string literals of the whole filter are those of the fixed clauses and, between
  them, one literal for each object of the list, in the order of the list.
\<close>

theorem C6_object_clause:
  \<open>(1 \<le> length (PodItems podList) \<and> length (PodItems podList) \<le> 100 \<and> useNewResourceModel t \<longrightarrow>
      filterOf (GetSDReqForPods t podList metricName namespace n) =
        Inr (Join [''metric.type = '' @ go_quote (MetricsPrefix (config t) @ ''/'' @ metricName),
                   ''resource.label.project_id = '' @ go_quote (Project (config t)),
                   ''resource.label.cluster_name = '' @ go_quote (Cluster (config t)),
                   ''resource.label.location = '' @ go_quote (Location (config t)),
                   ''resource.label.namespace_name = '' @ go_quote namespace,
                   ''resource.label.pod_name = '' @
                     (if length (PodItems podList) = 1 then go_quote (Name (hd (PodItems podList)))
                      else ''one_of('' @ Join (map (\<lambda>p. go_quote (Name p)) (PodItems podList)) '',''
                           @ '')''),
                   ''resource.type = "k8s_pod"'']
               '' AND '')
      \<and> map_sum id literals (filterOf (GetSDReqForPods t podList metricName namespace n)) =
        Inr ([go_quote (MetricsPrefix (config t) @ ''/'' @ metricName),
              go_quote (Project (config t)), go_quote (Cluster (config t)),
              go_quote (Location (config t)), go_quote namespace]
             @ map (\<lambda>p. go_quote (Name p)) (PodItems podList) @ [''"k8s_pod"'']))
   \<and> (1 \<le> length (PodItems podList) \<and> length (PodItems podList) \<le> 100 \<and> \<not> useNewResourceModel t \<longrightarrow>
      filterOf (GetSDReqForPods t podList metricName namespace n) =
        Inr (Join [''metric.type = '' @ go_quote (MetricsPrefix (config t) @ ''/'' @ metricName),
                   ''resource.label.project_id = '' @ go_quote (Project (config t)),
                   ''resource.label.cluster_name = '' @ go_quote (Cluster (config t)),
                   ''resource.label.container_name = ""'',
                   ''resource.label.pod_id = '' @
                     (if length (PodItems podList) = 1 then go_quote (UID (hd (PodItems podList)))
                      else ''one_of('' @ Join (map (\<lambda>p. go_quote (UID p)) (PodItems podList)) '',''
                           @ '')'')]
               '' AND '')
      \<and> map_sum id literals (filterOf (GetSDReqForPods t podList metricName namespace n)) =
        Inr ([go_quote (MetricsPrefix (config t) @ ''/'' @ metricName),
              go_quote (Project (config t)), go_quote (Cluster (config t)), ''""'']
             @ map (\<lambda>p. go_quote (UID p)) (PodItems podList)))
   \<and> (1 \<le> length (NodeItems nodeList) \<and> length (NodeItems nodeList) \<le> 100 \<and> useNewResourceModel t \<longrightarrow>
      filterOf (GetSDReqForNodes t nodeList metricName n) =
        Inr (Join [''metric.type = '' @ go_quote (MetricsPrefix (config t) @ ''/'' @ metricName),
                   ''resource.label.project_id = '' @ go_quote (Project (config t)),
                   ''resource.label.cluster_name = '' @ go_quote (Cluster (config t)),
                   ''resource.label.location = '' @ go_quote (Location (config t)),
                   ''resource.label.node_name = '' @
                     (if length (NodeItems nodeList) = 1 then go_quote (Name (hd (NodeItems nodeList)))
                      else ''one_of('' @ Join (map (\<lambda>p. go_quote (Name p)) (NodeItems nodeList)) '',''
                           @ '')''),
                   ''resource.type = "k8s_node"'']
               '' AND '')
      \<and> map_sum id literals (filterOf (GetSDReqForNodes t nodeList metricName n)) =
        Inr ([go_quote (MetricsPrefix (config t) @ ''/'' @ metricName),
              go_quote (Project (config t)), go_quote (Cluster (config t)),
              go_quote (Location (config t))]
             @ map (\<lambda>p. go_quote (Name p)) (NodeItems nodeList) @ [''"k8s_node"'']))\<close>
  using filter_pods_current [of podList t metricName namespace n]
    filter_pods_legacy [of podList t metricName namespace n]
    filter_nodes_current [of nodeList t metricName n]
  by blast

theorem C6_object_clause_witness:
  \<open>1 \<le> length (PodItems \<lparr>PodItems = [example_object ''ns1'' ''pod-a'' ''uid-a'',
                                        example_object ''ns1'' ''pod-b'' ''uid-b'']\<rparr>)
   \<and> length (PodItems \<lparr>PodItems = [example_object ''ns1'' ''pod-a'' ''uid-a'',
                                      example_object ''ns1'' ''pod-b'' ''uid-b'']\<rparr>) \<le> 100
   \<and> 1 \<le> length (NodeItems \<lparr>NodeItems = [example_object [] ''node-a'' ''uid-n'']\<rparr>)
   \<and> length (NodeItems \<lparr>NodeItems = [example_object [] ''node-a'' ''uid-n'']\<rparr>) \<le> 100
   \<and> useNewResourceModel (example_translator True)
   \<and> \<not> useNewResourceModel (example_translator False)
   \<and> filterOf (GetSDReqForPods (example_translator True)
        \<lparr>PodItems = [example_object ''ns1'' ''pod-a'' ''uid-a'',
                     example_object ''ns1'' ''pod-b'' ''uid-b'']\<rparr> ''qps'' ''ns1'' 0) =
      Inr ''metric.type = "custom.googleapis.com/qps" AND resource.label.project_id = "proj" AND resource.label.cluster_name = "c1" AND resource.label.location = "us-east1-b" AND resource.label.namespace_name = "ns1" AND resource.label.pod_name = one_of("pod-a","pod-b") AND resource.type = "k8s_pod"''
   \<and> map_sum id literals (filterOf (GetSDReqForPods (example_translator True)
        \<lparr>PodItems = [example_object ''ns1'' ''pod-a'' ''uid-a'',
                     example_object ''ns1'' ''pod-b'' ''uid-b'']\<rparr> ''qps'' ''ns1'' 0)) =
      Inr [''"custom.googleapis.com/qps"'', ''"proj"'', ''"c1"'', ''"us-east1-b"'', ''"ns1"'',
           ''"pod-a"'', ''"pod-b"'', ''"k8s_pod"'']
   \<and> filterOf (GetSDReqForPods (example_translator False)
        \<lparr>PodItems = [example_object ''ns1'' ''pod-a'' ''uid-a'',
                     example_object ''ns1'' ''pod-b'' ''uid-b'']\<rparr> ''qps'' ''ns1'' 0) =
      Inr ''metric.type = "custom.googleapis.com/qps" AND resource.label.project_id = "proj" AND resource.label.cluster_name = "c1" AND resource.label.container_name = "" AND resource.label.pod_id = one_of("uid-a","uid-b")''
   \<and> filterOf (GetSDReqForNodes (example_translator True)
        \<lparr>NodeItems = [example_object [] ''node-a'' ''uid-n'']\<rparr> ''qps'' 0) =
      Inr ''metric.type = "custom.googleapis.com/qps" AND resource.label.project_id = "proj" AND resource.label.cluster_name = "c1" AND resource.label.location = "us-east1-b" AND resource.label.node_name = "node-a" AND resource.type = "k8s_node"''\<close>
  using C6_object_clause [of "\<lparr>PodItems = [example_object ''ns1'' ''pod-a'' ''uid-a'',
        example_object ''ns1'' ''pod-b'' ''uid-b'']\<rparr>" "example_translator True" "''qps''" "''ns1''" 0
      "\<lparr>NodeItems = [example_object [] ''node-a'' ''uid-n'']\<rparr>"]
    C6_object_clause [of "\<lparr>PodItems = [example_object ''ns1'' ''pod-a'' ''uid-a'',
        example_object ''ns1'' ''pod-b'' ''uid-b'']\<rparr>" "example_translator False" "''qps''" "''ns1''" 0
      "\<lparr>NodeItems = [example_object [] ''node-a'' ''uid-n'']\<rparr>"]
  by (simp add: example_translator_def example_config_def example_object_def go_quote_def
      quote_byte_def)

text \<open>
  C6 as stated fails for the pod \<^verbatim>\<open>ns1\<close> of the namespace \<^verbatim>\<open>ns1\<close>: the filter holds
  the literal \<^verbatim>\<open>"ns1"\<close> twice, once in the namespace clause and once in the clause over
  \<^verbatim>\<open>pod_name\<close>.
\<close>

theorem C6_counterexample:
  \<open>filterOf (GetSDReqForPods (example_translator True)
      \<lparr>PodItems = [example_object ''ns1'' ''ns1'' ''uid-1'']\<rparr> ''qps'' ''ns1'' 0) =
    Inr ''metric.type = "custom.googleapis.com/qps" AND resource.label.project_id = "proj" AND resource.label.cluster_name = "c1" AND resource.label.location = "us-east1-b" AND resource.label.namespace_name = "ns1" AND resource.label.pod_name = "ns1" AND resource.type = "k8s_pod"''
   \<and> go_quote (Name (example_object ''ns1'' ''ns1'' ''uid-1'')) = ''"ns1"''
   \<and> occurrences ''metric.type = "custom.googleapis.com/qps" AND resource.label.project_id = "proj" AND resource.label.cluster_name = "c1" AND resource.label.location = "us-east1-b" AND resource.label.namespace_name = "ns1" AND resource.label.pod_name = "ns1" AND resource.type = "k8s_pod"''
       ''"ns1"'' = 2\<close>
  by (simp add: filterOf_def GetSDReqForPods_def oneOfMax_def example_translator_def
      example_config_def example_object_def getPodNames_def createListTimeseriesRequest_def
      joinFilters_def filterForMetric_def filterForCluster_def filterForAnyPod_def go_quote_def
      quote_byte_def)

section \<open>Properties of the aggregation\<close>

lemma getMetricValues_loop_total:
  "getMetricValues_loop t mv ss = Inr mv' \<Longrightarrow>
   mv' k = total (mv k) (map contribution (filter (\<lambda>s. metricKey t s = Inr k) ss))"
proof (induction ss arbitrary: mv)
  case Nil
  then show ?case by (auto simp: total_def split: option.splits Quantity.splits)
next
  case (Cons s ss)
  show ?case
  proof (cases "metricKey t s")
    case (Inl e)
    with Cons.prems show ?thesis by (simp add: Let_def split: if_splits)
  next
    case (Inr name)
    show ?thesis
    proof (cases "Int64Value (PointValue (hd (Points s)))")
      case (Some i)
      with Cons.prems Inr have
        "getMetricValues_loop t (mv(name \<mapsto> Add (case mv name of None \<Rightarrow> NewQuantity 0 | Some q \<Rightarrow> q) (NewQuantity i))) ss = Inr mv'"
        by (simp add: Let_def split: if_splits)
      from Cons.IH [OF this] Inr Some show ?thesis
        by (cases "mv name"; cases "k = name")
          (auto simp: total_def contribution_def NewQuantity_def split: option.splits Quantity.splits)
    next
      case None
      show ?thesis
      proof (cases "DoubleValue (PointValue (hd (Points s)))")
        case (Some d)
        with Cons.prems Inr None have
          "getMetricValues_loop t (mv(name \<mapsto> Add (case mv name of None \<Rightarrow> NewQuantity 0 | Some q \<Rightarrow> q)
             (NewMilliQuantity (int64_of_float64 (float64_mul d (Finite 1000 0)))))) ss = Inr mv'"
          by (simp add: Let_def split: if_splits)
        from Cons.IH [OF this] Inr None Some show ?thesis
          by (cases "mv name"; cases "k = name")
            (auto simp: total_def contribution_def NewQuantity_def NewMilliQuantity_def
              split: option.splits Quantity.splits)
      next
        case None': None
        with Cons.prems Inr None show ?thesis by (simp add: Let_def split: if_splits)
      qed
    qed
  qed
qed

text \<open>
  C2, as the code has it. The quantity of a key is the exact sum of what the samples of its
  series contribute, and a key with no series is absent. An integer sample contributes
  its value, exactly; a floating sample \<open>v\<close> contributes \<^verbatim>\<open>int64(v*1000)\<close> thousandths,
  the product with the fraction dropped, not rounded to the nearest thousandth.
\<close>

theorem C2_aggregate_sum:
  "getMetricValuesFromResponse t groupResource response metricName = Inr values \<Longrightarrow>
   values key =
     (if filter (\<lambda>s. metricKey t s = Inr key) (TimeSeriesList response) = [] then None
      else Some (Milli (sum_list (map contribution
             (filter (\<lambda>s. metricKey t s = Inr key) (TimeSeriesList response))))))"
  using getMetricValues_loop_total [of t Map.empty "TimeSeriesList response" "values" key]
  by (simp add: getMetricValuesFromResponse_def total_def split: if_splits)

lemma metricKey_example_pod_series:
  "metricKey (example_translator True) (example_pod_series namespace name ps) =
     Inr (namespace @ '':'' @ name)"
  by (simp add: metricKey_def example_translator_def example_pod_series_def label_def)

lemma Points_example_pod_series: "Points (example_pod_series ns name ps) = ps"
  by (simp add: example_pod_series_def)

lemma int64_of_1_0005_times_1000: "int64_of_float64 (float64_mul (Finite 4505851427184181 (- 52)) (Finite 1000 0)) = 1000"
  by code_simp

lemma int64_of_1_0004_times_1000: "int64_of_float64 (float64_mul (Finite 4505401067221444 (- 52)) (Finite 1000 0)) = 1000"
  by code_simp

lemma int64_of_2_5_times_1000:
  "int64_of_float64 (float64_mul (Finite 5629499534213120 (- 51)) (Finite 1000 0)) = 2500"
  by code_simp

theorem C2_aggregate_sum_witness:
  "getMetricValuesFromResponse (example_translator True) example_group_resource
     \<lparr>TimeSeriesList =
        [example_pod_series ''ns1'' ''pod-a'' [int64_sample 3],
         example_pod_series ''ns1'' ''pod-b'' [int64_sample 7],
         example_pod_series ''ns1'' ''pod-a'' [int64_sample 4],
         example_pod_series ''ns1'' ''pod-b'' [double_sample (Finite 5629499534213120 (- 51))],
         example_pod_series ''ns1'' ''pod-a'' [int64_sample 5]]\<rparr>
     ''qps'' = Inr [''ns1:pod-a'' \<mapsto> Milli 12000, ''ns1:pod-b'' \<mapsto> Milli 9500]
   \<and> [''ns1:pod-a'' \<mapsto> Milli 12000, ''ns1:pod-b'' \<mapsto> Milli 9500] ''ns1:pod-a'' =
       Some (Milli (sum_list (map contribution
         (filter (\<lambda>s. metricKey (example_translator True) s = Inr ''ns1:pod-a'')
            [example_pod_series ''ns1'' ''pod-a'' [int64_sample 3],
             example_pod_series ''ns1'' ''pod-b'' [int64_sample 7],
             example_pod_series ''ns1'' ''pod-a'' [int64_sample 4],
             example_pod_series ''ns1'' ''pod-b''
               [double_sample (Finite 5629499534213120 (- 51))],
             example_pod_series ''ns1'' ''pod-a'' [int64_sample 5]]))))
   \<and> [''ns1:pod-a'' \<mapsto> Milli 12000, ''ns1:pod-b'' \<mapsto> Milli 9500] ''ns1:pod-c'' = None"
proof -
  have r: "getMetricValuesFromResponse (example_translator True) example_group_resource
     \<lparr>TimeSeriesList =
        [example_pod_series ''ns1'' ''pod-a'' [int64_sample 3],
         example_pod_series ''ns1'' ''pod-b'' [int64_sample 7],
         example_pod_series ''ns1'' ''pod-a'' [int64_sample 4],
         example_pod_series ''ns1'' ''pod-b'' [double_sample (Finite 5629499534213120 (- 51))],
         example_pod_series ''ns1'' ''pod-a'' [int64_sample 5]]\<rparr>
     ''qps'' = Inr [''ns1:pod-a'' \<mapsto> Milli 12000, ''ns1:pod-b'' \<mapsto> Milli 9500]"
    by (simp add: getMetricValuesFromResponse_def metricKey_example_pod_series
        Points_example_pod_series int64_sample_def double_sample_def NewQuantity_def
        NewMilliQuantity_def int64_of_2_5_times_1000 Let_def fun_upd_twist
        del: float64_mul.simps)
  show ?thesis
    using r C2_aggregate_sum [OF r, of "''ns1:pod-a''"] C2_aggregate_sum [OF r, of "''ns1:pod-c''"]
    by (simp add: metricKey_example_pod_series)
qed

text \<open>
  C2 as stated fails on its own example. The doubles nearest to 1.0005 and 1.0004 are
  \<open>4505851427184181 * 2^-52\<close> and \<open>4505401067221444 * 2^-52\<close>; each contributes 1000
  thousandths, and the quantity of the key is 2000 thousandths, the whole number 2, where
  2.0009 to the nearest thousandth is 2001 thousandths.
\<close>

theorem C2_counterexample:
  "quantityAt
     (getMetricValuesFromResponse (example_translator True) example_group_resource
        \<lparr>TimeSeriesList =
           [example_pod_series ''ns1'' ''pod-a'' [double_sample (Finite 4505851427184181 (- 52))],
            example_pod_series ''ns1'' ''pod-a'' [double_sample (Finite 4505401067221444 (- 52))]]\<rparr>
        ''qps'')
     ''ns1:pod-a'' = Inr (Some (Milli 2000))
   \<and> \<bar>4505851427184181 * 10000 - 10005 * 2 ^ 52\<bar> * 2 \<le> (10000 :: int)
   \<and> \<bar>4505401067221444 * 10000 - 10004 * 2 ^ 52\<bar> * 2 \<le> (10000 :: int)
   \<and> Milli 2000 = NewQuantity 2
   \<and> Milli 2000 \<noteq> Milli 2001"
  by (simp add: quantityAt_def getMetricValuesFromResponse_def metricKey_example_pod_series
      Points_example_pod_series double_sample_def int64_of_1_0005_times_1000
      int64_of_1_0004_times_1000 NewQuantity_def NewMilliQuantity_def Let_def
      del: float64_mul.simps)

lemma metricKey_unrecognized:
  "useNewResourceModel t \<Longrightarrow> Type (Resource s) \<noteq> ''k8s_pod'' \<Longrightarrow> Type (Resource s) \<noteq> ''k8s_node'' \<Longrightarrow>
   metricKey t s = Inl (InternalError (''Stackdriver returned incorrect resource type ''
                  @ go_quote (Type (Resource s))))"
  by (simp add: metricKey_def)

lemma loop_step_unrecognized:
  assumes "useNewResourceModel t" "Type (Resource s) \<noteq> ''k8s_pod''" "Type (Resource s) \<noteq> ''k8s_node''"
  shows "failure is_InternalError (getMetricValues_loop t mv (s # post))"
  using metricKey_unrecognized [OF assms]
  by (simp add: failure_def Let_def)

lemma loop_fails_unrecognized:
  assumes "useNewResourceModel t" "Type (Resource s) \<noteq> ''k8s_pod''" "Type (Resource s) \<noteq> ''k8s_node''"
  shows "s \<in> set ss \<Longrightarrow> isl (getMetricValues_loop t mv ss)"
proof (induction ss arbitrary: mv)
  case Nil
  then show ?case by simp
next
  case (Cons x ss)
  show ?case
  proof (cases "x = s")
    case True
    then show ?thesis using loop_step_unrecognized [OF assms, of mv ss]
      by (cases "getMetricValues_loop t mv (s # ss)") (simp_all add: failure_def)
  next
    case False
    with Cons.prems have "s \<in> set ss" by simp
    from Cons.IH [OF this] show ?thesis
      by (auto simp: Let_def split: sum.splits option.splits)
  qed
qed

lemma loop_internal_error:
  assumes "useNewResourceModel t" "Type (Resource s) \<noteq> ''k8s_pod''" "Type (Resource s) \<noteq> ''k8s_node''"
  shows "list_all numeric pre \<Longrightarrow> failure is_InternalError (getMetricValues_loop t mv (pre @ s # post))"
proof (induction pre arbitrary: mv)
  case Nil
  then show ?case using loop_step_unrecognized [OF assms] by simp
next
  case (Cons x pre)
  then have n: "numeric x" and rest: "list_all numeric pre" by simp_all
  show ?case
  proof (cases "metricKey t x")
    case (Inl e)
    then have "is_InternalError e"
      by (auto simp: metricKey_def split: if_splits)
    with Inl show ?thesis by (simp add: failure_def Let_def)
  next
    case (Inr name)
    with n Cons.IH [OF rest] show ?thesis
      by (auto simp: numeric_def Let_def failure_def split: option.splits)
  qed
qed

text \<open>
  C4, as the code has it. Under the current model the key of a series of type
  \<^verbatim>\<open>k8s_pod\<close> is \<^verbatim>\<open>namespace_name\<close>, a colon and \<^verbatim>\<open>pod_name\<close>, that of a series of
  type \<^verbatim>\<open>k8s_node\<close> a colon and \<^verbatim>\<open>node_name\<close>; under the legacy model it is the label
  \<^verbatim>\<open>pod_id\<close>, whatever the type. Under the current model a series of any other type has
  no key, \<open>metricKey\<close> fails with an internal error, and a response that holds such a series
  makes \<open>getMetricValuesFromResponse\<close> fail; the error is the internal one when every
  series before it carries an integer or a floating sample.
\<close>

theorem C4_metric_key:
  "(useNewResourceModel t \<and> Type (Resource s) = ''k8s_pod'' \<longrightarrow>
      metricKey t s = Inr (label (Labels (Resource s)) ''namespace_name'' @ '':''
                           @ label (Labels (Resource s)) ''pod_name''))
   \<and> (useNewResourceModel t \<and> Type (Resource s) = ''k8s_node'' \<longrightarrow>
      metricKey t s = Inr ('':'' @ label (Labels (Resource s)) ''node_name''))
   \<and> (\<not> useNewResourceModel t \<longrightarrow>
      metricKey t s = Inr (label (Labels (Resource s)) ''pod_id''))
   \<and> (useNewResourceModel t \<and> Type (Resource s) \<noteq> ''k8s_pod'' \<and> Type (Resource s) \<noteq> ''k8s_node'' \<longrightarrow>
      failure is_InternalError (metricKey t s)
      \<and> (s \<in> set (TimeSeriesList response) \<longrightarrow>
           isl (getMetricValuesFromResponse t groupResource response metricName))
      \<and> (TimeSeriesList response = pre @ s # post \<and> list_all numeric pre \<longrightarrow>
           failure is_InternalError
             (getMetricValuesFromResponse t groupResource response metricName)))"
proof -
  have a: "failure is_InternalError (metricKey t s)"
    if "useNewResourceModel t" "Type (Resource s) \<noteq> ''k8s_pod''" "Type (Resource s) \<noteq> ''k8s_node''"
    using metricKey_unrecognized [OF that] by (simp add: failure_def)
  have b: "isl (getMetricValuesFromResponse t groupResource response metricName)"
    if "useNewResourceModel t" "Type (Resource s) \<noteq> ''k8s_pod''" "Type (Resource s) \<noteq> ''k8s_node''"
      "s \<in> set (TimeSeriesList response)"
    using loop_fails_unrecognized [OF that(1-3) that(4), of Map.empty]
    by (simp add: getMetricValuesFromResponse_def)
  have c: "failure is_InternalError (getMetricValuesFromResponse t groupResource response metricName)"
    if "useNewResourceModel t" "Type (Resource s) \<noteq> ''k8s_pod''" "Type (Resource s) \<noteq> ''k8s_node''"
      "TimeSeriesList response = pre @ s # post" "list_all numeric pre"
    using loop_internal_error [OF that(1-3) that(5), of Map.empty post] that(4)
    by (simp add: getMetricValuesFromResponse_def)
  have d: "metricKey t s = Inr (label (Labels (Resource s)) ''namespace_name'' @ '':''
                           @ label (Labels (Resource s)) ''pod_name'')"
    if "useNewResourceModel t" "Type (Resource s) = ''k8s_pod''"
    using that by (simp add: metricKey_def)
  have e: "metricKey t s = Inr ('':'' @ label (Labels (Resource s)) ''node_name'')"
    if "useNewResourceModel t" "Type (Resource s) = ''k8s_node''"
    using that by (simp add: metricKey_def)
  have f: "metricKey t s = Inr (label (Labels (Resource s)) ''pod_id'')"
    if "\<not> useNewResourceModel t"
    using that by (simp add: metricKey_def)
  show ?thesis
    using a b c d e f by blast
qed

theorem C4_metric_key_witness:
  "useNewResourceModel (example_translator True)
   \<and> \<not> useNewResourceModel (example_translator False)
   \<and> metricKey (example_translator True) (example_pod_series ''ns1'' ''pod-a'' [int64_sample 3]) =
       Inr ''ns1:pod-a''
   \<and> metricKey (example_translator True)
        \<lparr>Points = [int64_sample 3],
         Resource = \<lparr>Type = ''k8s_node'', Labels = [''node_name'' \<mapsto> ''node-a'']\<rparr>\<rparr> =
       Inr '':node-a''
   \<and> metricKey (example_translator False)
        \<lparr>Points = [int64_sample 3],
         Resource = \<lparr>Type = ''gke_container'', Labels = [''pod_id'' \<mapsto> ''uid-a'']\<rparr>\<rparr> =
       Inr ''uid-a''
   \<and> Type (Resource \<lparr>Points = [int64_sample 3],
         Resource = \<lparr>Type = ''gce_instance'', Labels = Map.empty\<rparr>\<rparr>) \<noteq> ''k8s_pod''
   \<and> Type (Resource \<lparr>Points = [int64_sample 3],
         Resource = \<lparr>Type = ''gce_instance'', Labels = Map.empty\<rparr>\<rparr>) \<noteq> ''k8s_node''
   \<and> list_all numeric [example_pod_series ''ns1'' ''pod-a'' [int64_sample 3]]
   \<and> \<lparr>Points = [int64_sample 3],
        Resource = \<lparr>Type = ''gce_instance'', Labels = Map.empty\<rparr>\<rparr>
       \<in> set (TimeSeriesList \<lparr>TimeSeriesList =
              [example_pod_series ''ns1'' ''pod-a'' [int64_sample 3]]
              @ \<lparr>Points = [int64_sample 3],
                  Resource = \<lparr>Type = ''gce_instance'', Labels = Map.empty\<rparr>\<rparr> # []\<rparr>)
   \<and> isl (getMetricValuesFromResponse (example_translator True) example_group_resource
           \<lparr>TimeSeriesList =
              [example_pod_series ''ns1'' ''pod-a'' [int64_sample 3]]
              @ \<lparr>Points = [int64_sample 3],
                  Resource = \<lparr>Type = ''gce_instance'', Labels = Map.empty\<rparr>\<rparr> # []\<rparr>
           ''qps'')
   \<and> failure is_InternalError
        (getMetricValuesFromResponse (example_translator True) example_group_resource
           \<lparr>TimeSeriesList =
              [example_pod_series ''ns1'' ''pod-a'' [int64_sample 3]]
              @ \<lparr>Points = [int64_sample 3],
                  Resource = \<lparr>Type = ''gce_instance'', Labels = Map.empty\<rparr>\<rparr> # []\<rparr>
           ''qps'')"
  using C4_metric_key [of "example_translator True"
      "example_pod_series ''ns1'' ''pod-a'' [int64_sample 3]"]
    C4_metric_key [of "example_translator True"
      "\<lparr>Points = [int64_sample 3],
        Resource = \<lparr>Type = ''k8s_node'', Labels = [''node_name'' \<mapsto> ''node-a'']\<rparr>\<rparr>"]
    C4_metric_key [of "example_translator False"
      "\<lparr>Points = [int64_sample 3],
        Resource = \<lparr>Type = ''gke_container'', Labels = [''pod_id'' \<mapsto> ''uid-a'']\<rparr>\<rparr>"]
    C4_metric_key [of "example_translator True"
      "\<lparr>Points = [int64_sample 3],
        Resource = \<lparr>Type = ''gce_instance'', Labels = Map.empty\<rparr>\<rparr>"
      "\<lparr>TimeSeriesList =
          [example_pod_series ''ns1'' ''pod-a'' [int64_sample 3]]
          @ \<lparr>Points = [int64_sample 3],
              Resource = \<lparr>Type = ''gce_instance'', Labels = Map.empty\<rparr>\<rparr> # []\<rparr>"
      example_group_resource "''qps''"
      "[example_pod_series ''ns1'' ''pod-a'' [int64_sample 3]]" "[]"]
  by (simp add: example_translator_def example_pod_series_def label_def numeric_def
      int64_sample_def)

text \<open>
  C4 as stated fails when a series before the unrecognized one carries a sample that is
  neither integer nor floating: the loop stops at that series, with the bad-request error.
\<close>

theorem C4_counterexample:
  "getMetricValuesFromResponse (example_translator True) example_group_resource
     \<lparr>TimeSeriesList =
        [example_pod_series ''ns1'' ''pod-a''
           [\<lparr>PointValue = \<lparr>Int64Value = None, DoubleValue = None\<rparr>\<rparr>],
         \<lparr>Points = [int64_sample 3],
          Resource = \<lparr>Type = ''gce_instance'', Labels = Map.empty\<rparr>\<rparr>]\<rparr>
     ''qps'' =
     Inl (BadRequest
       ''Expected metric of type DoubleValue or Int64Value, but received TypedValue: '')
   \<and> \<not> failure is_InternalError
        (getMetricValuesFromResponse (example_translator True) example_group_resource
           \<lparr>TimeSeriesList =
              [example_pod_series ''ns1'' ''pod-a''
                 [\<lparr>PointValue = \<lparr>Int64Value = None, DoubleValue = None\<rparr>\<rparr>],
               \<lparr>Points = [int64_sample 3],
                Resource = \<lparr>Type = ''gce_instance'', Labels = Map.empty\<rparr>\<rparr>]\<rparr>
           ''qps'')"
  by (simp add: getMetricValuesFromResponse_def metricKey_example_pod_series
      Points_example_pod_series failure_def Let_def)

text \<open>
  C7. Under the current model the pod \<^verbatim>\<open>pod-a\<close> of the namespace \<^verbatim>\<open>ns1\<close> has the
  resource key \<^verbatim>\<open>ns1:pod-a\<close>; the filter clause built for it names the namespace
  \<^verbatim>\<open>ns1\<close> and the pod \<^verbatim>\<open>pod-a\<close>; and a series of type \<^verbatim>\<open>k8s_pod\<close> with these two
  labels has the same key. The same holds of every pod: the key of a series labelled with
  the namespace and the name of an object is the resource key of the object.
\<close>

theorem C7_key_round_trip:
  \<open>resourceKey (t\<lparr>useNewResourceModel := True\<rparr>)
      \<lparr>Name = ''pod-a'', Namespace = ''ns1'', UID = uid\<rparr> = ''ns1:pod-a''
   \<and> metricKey (t\<lparr>useNewResourceModel := True\<rparr>)
      \<lparr>Points = points,
       Resource = \<lparr>Type = ''k8s_pod'',
                   Labels = labels(''namespace_name'' \<mapsto> ''ns1'', ''pod_name'' \<mapsto> ''pod-a'')\<rparr>\<rparr> =
      Inr ''ns1:pod-a''
   \<and> filterForPods (t\<lparr>useNewResourceModel := True\<rparr>)
      (getPodNames \<lparr>PodItems = [\<lparr>Name = ''pod-a'', Namespace = ''ns1'', UID = uid\<rparr>]\<rparr>) ''ns1'' =
      Inr ''resource.label.namespace_name = "ns1" AND resource.label.pod_name = "pod-a"''
   \<and> metricKey (t\<lparr>useNewResourceModel := True\<rparr>)
      \<lparr>Points = points,
       Resource = \<lparr>Type = ''k8s_pod'',
                   Labels = labels(''namespace_name'' \<mapsto> Namespace object,
                                   ''pod_name'' \<mapsto> Name object)\<rparr>\<rparr> =
      Inr (resourceKey (t\<lparr>useNewResourceModel := True\<rparr>) object)\<close>
  by (simp add: resourceKey_def metricKey_def label_def getPodNames_def go_quote_def
      quote_byte_def)

theorem C7_key_round_trip_witness:
  \<open>resourceKey (example_translator True) (example_object ''ns1'' ''pod-a'' ''uid-a'') = ''ns1:pod-a''
   \<and> metricKey (example_translator True) (example_pod_series ''ns1'' ''pod-a'' [int64_sample 3]) =
      Inr (resourceKey (example_translator True) (example_object ''ns1'' ''pod-a'' ''uid-a''))\<close>
  using C7_key_round_trip [of "example_translator True" "''uid-a''" "[int64_sample 3]" Map.empty
      "example_object ''ns1'' ''pod-a'' ''uid-a''"]
  by (simp add: example_translator_def example_object_def example_pod_series_def)

section \<open>Properties of the result mapping\<close>

lemma metricsFor_loop_ok:
  assumes "mapper t (WithVersion gr []) = Inr kind"
  shows "metricsFor_loop t values gr mn list res n =
    (Inr (res @ map (emitted t values gr mn kind)
                  (enumerate n (filter (\<lambda>item. values (resourceKey t item) \<noteq> None) list))),
     n + length (filter (\<lambda>item. values (resourceKey t item) \<noteq> None) list))"
proof (induction list arbitrary: res n)
  case Nil
  then show ?case by simp
next
  case (Cons item rest)
  show ?case
  proof (cases "values (resourceKey t item)")
    case None
    then show ?thesis using Cons.IH [of res n] by simp
  next
    case (Some v)
    then show ?thesis
      using Cons.IH [of "res @ [emitted t values gr mn kind (n, item)]" "Suc n"] assms
      by (simp add: metricFor_def emitted_def)
  qed
qed

lemma metricsFor_loop_absent:
  "metricsFor_loop t values gr mn list res n =
   metricsFor_loop t values gr mn (filter (\<lambda>item. values (resourceKey t item) \<noteq> None) list) res n"
proof (induction list arbitrary: res n)
  case Nil
  then show ?case by simp
next
  case (Cons item rest)
  then show ?case
    by (cases "values (resourceKey t item)") (auto split: prod.splits sum.splits)
qed

lemma metricsFor_loop_mapper_error:
  assumes "mapper t (WithVersion gr []) = Inl e"
  shows "metricsFor_loop t values gr mn list res n =
    (if filter (\<lambda>item. values (resourceKey t item) \<noteq> None) list = [] then (Inr res, n)
     else (Inl e, n))"
proof (induction list)
  case Nil
  then show ?case by simp
next
  case (Cons item rest)
  then show ?case
    using assms by (cases "values (resourceKey t item)") (simp_all add: metricFor_def)
qed

lemma map_snd_enumerate: "map (\<lambda>p. g (snd p)) (enumerate n xs) = map g xs"
  by (induction xs arbitrary: n) simp_all

text \<open>
  C8. The objects of the caller's list whose resource key is not in the map have no part
  in what the batch path returns: the result is that of the list without them. When the
  mapper resolves the kind, the result is one metric value for each remaining object, in
  the order of the list, with the name and the namespace of the object and the quantity
  the map holds for its key; \<open>GetRespForMultipleObjects\<close> returns the same from the map that
  the aggregation gives. The one failure of \<open>metricsFor\<close> is that of the mapper, when
  an object with a key in the map is reached.
\<close>

theorem C8_batch_mapping:
  "metricsFor t values groupResource metricName list n =
     metricsFor t values groupResource metricName
       (filter (\<lambda>item. values (resourceKey t item) \<noteq> None) list) n
   \<and> (mapper t (WithVersion groupResource []) = Inr kind \<longrightarrow>
        metricsFor t values groupResource metricName list n =
          (Inr (map (emitted t values groupResource metricName kind)
                  (enumerate n (filter (\<lambda>item. values (resourceKey t item) \<noteq> None) list))),
           n + length (filter (\<lambda>item. values (resourceKey t item) \<noteq> None) list))
        \<and> map_sum id (map (\<lambda>v. (refNamespace (DescribedObject v), refName (DescribedObject v),
                                   Value v)))
            (fst (metricsFor t values groupResource metricName list n)) =
          Inr (map (\<lambda>item. (Namespace item, Name item, the (values (resourceKey t item))))
                 (filter (\<lambda>item. values (resourceKey t item) \<noteq> None) list))
        \<and> (getMetricValuesFromResponse t groupResource response metricName = Inr values \<longrightarrow>
             GetRespForMultipleObjects t response list groupResource metricName n =
               metricsFor t values groupResource metricName list n))
   \<and> (mapper t (WithVersion groupResource []) = Inl e \<longrightarrow>
        metricsFor t values groupResource metricName list n =
          (if filter (\<lambda>item. values (resourceKey t item) \<noteq> None) list = [] then (Inr [], n)
           else (Inl e, n)))"
proof -
  have f: "metricsFor t values groupResource metricName list n =
          (if filter (\<lambda>item. values (resourceKey t item) \<noteq> None) list = [] then (Inr [], n)
           else (Inl e, n))"
    if "mapper t (WithVersion groupResource []) = Inl e"
    unfolding metricsFor_def by (rule metricsFor_loop_mapper_error [OF that])
  have a: "metricsFor t values groupResource metricName list n =
     metricsFor t values groupResource metricName
       (filter (\<lambda>item. values (resourceKey t item) \<noteq> None) list) n"
    unfolding metricsFor_def by (rule metricsFor_loop_absent)
  have b: "metricsFor t values groupResource metricName list n =
          (Inr (map (emitted t values groupResource metricName kind)
                  (enumerate n (filter (\<lambda>item. values (resourceKey t item) \<noteq> None) list))),
           n + length (filter (\<lambda>item. values (resourceKey t item) \<noteq> None) list))"
    if "mapper t (WithVersion groupResource []) = Inr kind"
    unfolding metricsFor_def using metricsFor_loop_ok [OF that, of "values" metricName list "[]" n]
    by simp
  have c: "map_sum id (map (\<lambda>v. (refNamespace (DescribedObject v), refName (DescribedObject v),
                                   Value v)))
            (fst (metricsFor t values groupResource metricName list n)) =
          Inr (map (\<lambda>item. (Namespace item, Name item, the (values (resourceKey t item))))
                 (filter (\<lambda>item. values (resourceKey t item) \<noteq> None) list))"
    if "mapper t (WithVersion groupResource []) = Inr kind"
    unfolding b [OF that]
    using map_snd_enumerate
      [of "\<lambda>item. (Namespace item, Name item, the (values (resourceKey t item)))" n
        "filter (\<lambda>item. values (resourceKey t item) \<noteq> None) list"]
    by (simp add: emitted_def comp_def)
  have d: "GetRespForMultipleObjects t response list groupResource metricName n =
               metricsFor t values groupResource metricName list n"
    if "getMetricValuesFromResponse t groupResource response metricName = Inr values"
    using that by (simp add: GetRespForMultipleObjects_def)
  show ?thesis
    using a b c d f by blast
qed

theorem C8_batch_mapping_witness:
  "mapper (example_translator True) (WithVersion example_group_resource []) =
     Inr \<lparr>gvkGroup = [], gvkVersion = [], gvkKind = ''Pod''\<rparr>
   \<and> getMetricValuesFromResponse (example_translator True) example_group_resource
        \<lparr>TimeSeriesList = [example_pod_series ''ns1'' ''pod-a'' [int64_sample 3],
                           example_pod_series ''ns1'' ''pod-c'' [int64_sample 7]]\<rparr> ''qps'' =
      Inr [''ns1:pod-a'' \<mapsto> Milli 3000, ''ns1:pod-c'' \<mapsto> Milli 7000]
   \<and> map_sum id (map (\<lambda>v. (refNamespace (DescribedObject v), refName (DescribedObject v),
                              Value v)))
        (fst (GetRespForMultipleObjects (example_translator True)
           \<lparr>TimeSeriesList = [example_pod_series ''ns1'' ''pod-a'' [int64_sample 3],
                              example_pod_series ''ns1'' ''pod-c'' [int64_sample 7]]\<rparr>
           [example_object ''ns1'' ''pod-c'' ''uid-c'', example_object ''ns1'' ''pod-b'' ''uid-b'',
            example_object ''ns1'' ''pod-a'' ''uid-a'']
           example_group_resource ''qps'' 0)) =
      Inr [(''ns1'', ''pod-c'', Milli 7000), (''ns1'', ''pod-a'', Milli 3000)]
   \<and> mapper (example_translator True)
        (WithVersion \<lparr>grGroup = [], grResource = ''widgets''\<rparr> []) =
      Inl (MapperError ''no matches for resource'')
   \<and> metricsFor (example_translator True) [''ns1:pod-a'' \<mapsto> Milli 3000]
        \<lparr>grGroup = [], grResource = ''widgets''\<rparr> ''qps''
        [example_object ''ns1'' ''pod-b'' ''uid-b'', example_object ''ns1'' ''pod-a'' ''uid-a''] 0 =
      (Inl (MapperError ''no matches for resource''), 0)"
proof -
  have w: "mapper (example_translator True)
        (WithVersion \<lparr>grGroup = [], grResource = ''widgets''\<rparr> []) =
      Inl (MapperError ''no matches for resource'')"
    by (simp add: example_translator_def example_mapper_def WithVersion_def)
  from C8_batch_mapping [of "example_translator True" "[''ns1:pod-a'' \<mapsto> Milli 3000]"
      "\<lparr>grGroup = [], grResource = ''widgets''\<rparr>" "''qps''"
      "[example_object ''ns1'' ''pod-b'' ''uid-b'', example_object ''ns1'' ''pod-a'' ''uid-a'']" 0
      _ _ "MapperError ''no matches for resource''"] w
  have "metricsFor (example_translator True) [''ns1:pod-a'' \<mapsto> Milli 3000]
        \<lparr>grGroup = [], grResource = ''widgets''\<rparr> ''qps''
        [example_object ''ns1'' ''pod-b'' ''uid-b'', example_object ''ns1'' ''pod-a'' ''uid-a''] 0 =
      (if filter (\<lambda>item. [''ns1:pod-a'' \<mapsto> Milli 3000]
                    (resourceKey (example_translator True) item) \<noteq> None)
            [example_object ''ns1'' ''pod-b'' ''uid-b'',
             example_object ''ns1'' ''pod-a'' ''uid-a''] = []
       then (Inr [], 0) else (Inl (MapperError ''no matches for resource''), 0))"
    by blast
  then have e: "metricsFor (example_translator True) [''ns1:pod-a'' \<mapsto> Milli 3000]
        \<lparr>grGroup = [], grResource = ''widgets''\<rparr> ''qps''
        [example_object ''ns1'' ''pod-b'' ''uid-b'', example_object ''ns1'' ''pod-a'' ''uid-a''] 0 =
      (Inl (MapperError ''no matches for resource''), 0)"
    by (simp add: resourceKey_def example_translator_def example_object_def)
  have m: "mapper (example_translator True) (WithVersion example_group_resource []) =
     Inr \<lparr>gvkGroup = [], gvkVersion = [], gvkKind = ''Pod''\<rparr>"
    by (simp add: example_translator_def example_mapper_def WithVersion_def
        example_group_resource_def)
  have r: "getMetricValuesFromResponse (example_translator True) example_group_resource
        \<lparr>TimeSeriesList = [example_pod_series ''ns1'' ''pod-a'' [int64_sample 3],
                           example_pod_series ''ns1'' ''pod-c'' [int64_sample 7]]\<rparr> ''qps'' =
      Inr [''ns1:pod-a'' \<mapsto> Milli 3000, ''ns1:pod-c'' \<mapsto> Milli 7000]"
    by (simp add: getMetricValuesFromResponse_def metricKey_example_pod_series
        Points_example_pod_series int64_sample_def NewQuantity_def Let_def)
  note c8 = C8_batch_mapping [of "example_translator True"
        "[''ns1:pod-a'' \<mapsto> Milli 3000, ''ns1:pod-c'' \<mapsto> Milli 7000]"
        example_group_resource "''qps''"
        "[example_object ''ns1'' ''pod-c'' ''uid-c'', example_object ''ns1'' ''pod-b'' ''uid-b'',
          example_object ''ns1'' ''pod-a'' ''uid-a'']" 0
        "\<lparr>gvkGroup = [], gvkVersion = [], gvkKind = ''Pod''\<rparr>"
        "\<lparr>TimeSeriesList = [example_pod_series ''ns1'' ''pod-a'' [int64_sample 3],
                            example_pod_series ''ns1'' ''pod-c'' [int64_sample 7]]\<rparr>"]
  from c8 m r have same:
    "GetRespForMultipleObjects (example_translator True)
       \<lparr>TimeSeriesList = [example_pod_series ''ns1'' ''pod-a'' [int64_sample 3],
                          example_pod_series ''ns1'' ''pod-c'' [int64_sample 7]]\<rparr>
       [example_object ''ns1'' ''pod-c'' ''uid-c'', example_object ''ns1'' ''pod-b'' ''uid-b'',
        example_object ''ns1'' ''pod-a'' ''uid-a'']
       example_group_resource ''qps'' 0 =
     metricsFor (example_translator True)
       [''ns1:pod-a'' \<mapsto> Milli 3000, ''ns1:pod-c'' \<mapsto> Milli 7000]
       example_group_resource ''qps''
       [example_object ''ns1'' ''pod-c'' ''uid-c'', example_object ''ns1'' ''pod-b'' ''uid-b'',
        example_object ''ns1'' ''pod-a'' ''uid-a''] 0"
    by blast
  from c8 m have "map_sum id (map (\<lambda>v. (refNamespace (DescribedObject v),
        refName (DescribedObject v), Value v)))
      (fst (metricsFor (example_translator True)
         [''ns1:pod-a'' \<mapsto> Milli 3000, ''ns1:pod-c'' \<mapsto> Milli 7000]
         example_group_resource ''qps''
         [example_object ''ns1'' ''pod-c'' ''uid-c'', example_object ''ns1'' ''pod-b'' ''uid-b'',
          example_object ''ns1'' ''pod-a'' ''uid-a''] 0)) =
      Inr (map (\<lambda>item. (Namespace item, Name item,
                  the ([''ns1:pod-a'' \<mapsto> Milli 3000, ''ns1:pod-c'' \<mapsto> Milli 7000]
                         (resourceKey (example_translator True) item))))
             (filter (\<lambda>item. [''ns1:pod-a'' \<mapsto> Milli 3000, ''ns1:pod-c'' \<mapsto> Milli 7000]
                         (resourceKey (example_translator True) item) \<noteq> None)
                [example_object ''ns1'' ''pod-c'' ''uid-c'',
                 example_object ''ns1'' ''pod-b'' ''uid-b'',
                 example_object ''ns1'' ''pod-a'' ''uid-a'']))"
    by blast
  then show ?thesis
    unfolding same [symmetric] using m r w e
    by (simp add: resourceKey_def example_translator_def example_object_def)
qed

section \<open>Properties of the descriptor filter\<close>

lemma foldl_append_filter:
  "foldl (\<lambda>acc d. if P d then acc @ [f d] else acc) acc0 ds = acc0 @ map f (filter P ds)"
  by (induction ds arbitrary: acc0) simp_all

lemma Contains_slash: "Contains s ''/'' \<longleftrightarrow> CHR ''/'' \<in> set s"
  by (induction s) auto

text \<open>
  C9. The result lists, in the order of the response, the descriptors whose kind is
  \<^verbatim>\<open>GAUGE\<close>, whose value type is \<^verbatim>\<open>INT64\<close> or \<^verbatim>\<open>DOUBLE\<close> and whose type, once the
  metrics prefix and the \<^verbatim>\<open>/\<close> after it are stripped from its front, holds no \<^verbatim>\<open>/\<close>.
  Each is given with the empty group, the resource \<^verbatim>\<open>*\<close>, the stripped type as its
  name, and as namespaced. A descriptor of kind \<^verbatim>\<open>CUMULATIVE\<close>, of value type
  \<^verbatim>\<open>STRING\<close>, or with a \<^verbatim>\<open>/\<close> left in its stripped type adds nothing to the result.
\<close>

theorem C9_descriptor_filter:
  "GetMetricsFromSDDescriptorsResp t response =
     map (\<lambda>d. \<lparr>InfoGroupResource = \<lparr>grGroup = [], grResource = ''*''\<rparr>,
                Metric = TrimPrefix (DescriptorType d) (MetricsPrefix (config t) @ ''/''),
                Namespaced = True\<rparr>)
       (filter (\<lambda>d. MetricKind d = ''GAUGE''
                     \<and> (ValueType d = ''INT64'' \<or> ValueType d = ''DOUBLE'')
                     \<and> CHR ''/'' \<notin> set (TrimPrefix (DescriptorType d)
                                           (MetricsPrefix (config t) @ ''/'')))
          (MetricDescriptors response))
   \<and> (MetricKind d = ''CUMULATIVE'' \<or> ValueType d = ''STRING''
        \<or> CHR ''/'' \<in> set (TrimPrefix (DescriptorType d) (MetricsPrefix (config t) @ ''/'')) \<longrightarrow>
       GetMetricsFromSDDescriptorsResp t \<lparr>MetricDescriptors = before @ d # after\<rparr> =
       GetMetricsFromSDDescriptorsResp t \<lparr>MetricDescriptors = before @ after\<rparr>)"
  unfolding GetMetricsFromSDDescriptorsResp_def Contains_slash foldl_append_filter
  by auto

theorem C9_descriptor_filter_witness:
  "MetricKind \<lparr>DescriptorType = ''custom.googleapis.com/uptime'', MetricKind = ''CUMULATIVE'',
               ValueType = ''INT64''\<rparr> = ''CUMULATIVE''
   \<and> GetMetricsFromSDDescriptorsResp (example_translator True)
        \<lparr>MetricDescriptors =
           [\<lparr>DescriptorType = ''custom.googleapis.com/qps'', MetricKind = ''GAUGE'',
             ValueType = ''INT64''\<rparr>]
           @ \<lparr>DescriptorType = ''custom.googleapis.com/uptime'', MetricKind = ''CUMULATIVE'',
               ValueType = ''INT64''\<rparr>
           # [\<lparr>DescriptorType = ''custom.googleapis.com/version'', MetricKind = ''GAUGE'',
               ValueType = ''STRING''\<rparr>,
              \<lparr>DescriptorType = ''custom.googleapis.com/http/latency'', MetricKind = ''GAUGE'',
               ValueType = ''DOUBLE''\<rparr>,
              \<lparr>DescriptorType = ''custom.googleapis.com/load'', MetricKind = ''GAUGE'',
               ValueType = ''DOUBLE''\<rparr>]\<rparr> =
      [\<lparr>InfoGroupResource = \<lparr>grGroup = [], grResource = ''*''\<rparr>, Metric = ''qps'',
        Namespaced = True\<rparr>,
       \<lparr>InfoGroupResource = \<lparr>grGroup = [], grResource = ''*''\<rparr>, Metric = ''load'',
        Namespaced = True\<rparr>]"
  using C9_descriptor_filter [of "example_translator True"
      "\<lparr>MetricDescriptors =
           [\<lparr>DescriptorType = ''custom.googleapis.com/qps'', MetricKind = ''GAUGE'',
             ValueType = ''INT64''\<rparr>,
            \<lparr>DescriptorType = ''custom.googleapis.com/version'', MetricKind = ''GAUGE'',
               ValueType = ''STRING''\<rparr>,
              \<lparr>DescriptorType = ''custom.googleapis.com/http/latency'', MetricKind = ''GAUGE'',
               ValueType = ''DOUBLE''\<rparr>,
              \<lparr>DescriptorType = ''custom.googleapis.com/load'', MetricKind = ''GAUGE'',
               ValueType = ''DOUBLE''\<rparr>]\<rparr>"
      "\<lparr>DescriptorType = ''custom.googleapis.com/uptime'', MetricKind = ''CUMULATIVE'',
               ValueType = ''INT64''\<rparr>"
      "[\<lparr>DescriptorType = ''custom.googleapis.com/qps'', MetricKind = ''GAUGE'',
             ValueType = ''INT64''\<rparr>]"
      "[\<lparr>DescriptorType = ''custom.googleapis.com/version'', MetricKind = ''GAUGE'',
               ValueType = ''STRING''\<rparr>,
              \<lparr>DescriptorType = ''custom.googleapis.com/http/latency'', MetricKind = ''GAUGE'',
               ValueType = ''DOUBLE''\<rparr>,
              \<lparr>DescriptorType = ''custom.googleapis.com/load'', MetricKind = ''GAUGE'',
               ValueType = ''DOUBLE''\<rparr>]"]
  by (simp add: example_translator_def example_config_def TrimPrefix_def)

end
